theory Spec2Isabelle
  imports Main "HOL-Library.Sublist"
begin

section \<open>Common data: exceptions, HTTP outcomes, strings\<close>

text \<open>
  The TypeScript services throw \<open>Error\<close> objects; reading a property of \<open>null\<close> throws a
  \<open>TypeError\<close>, and \<open>encodeURIComponent\<close> throws a \<open>URIError\<close> on a malformed string.
  A thrown value is the left summand of a result.
\<close>

datatype exn = Error string | TypeError | URIError

text \<open>
  An axios call either rejects (transport failure or a status outside 2xx) with a message,
  or resolves with \<open>response.data\<close>. The services read \<open>data.status\<close>, \<open>data.error\<close>,
  \<open>data.session_id\<close> and \<open>data.success\<close>; a body that is \<open>null\<close> makes each such read
  throw, any other body yields \<open>undefined\<close> for an absent field.
\<close>

record data_fields =
  d_status :: "string option"
  d_error :: "string option"
  d_session_id :: "string option"
  d_success :: bool

datatype body = NullBody | Body data_fields

type_synonym http = "string + body"

text \<open>
  A JSON object the client sends (the payload of \<open>ws.send\<close>, the body of a POST): its
  fields in order, each a string or a number.
\<close>

datatype jvalue = JString string | JNumber int

type_synonym wire = "(string \<times> jvalue) list"

text \<open>The HTTP requests a service call issues, in order; a POST with its body.\<close>

datatype request = GET string | POST string wire

text \<open>\<open>String.prototype.includes\<close>: the argument occurs as a contiguous run.\<close>

definition str_includes :: "string \<Rightarrow> string \<Rightarrow> bool" where
  "str_includes s sub = sublist sub s"

section \<open>taskService (services/tasks.ts)\<close>

subsection \<open>cancelTask\<close>

record cancel_result =
  success :: bool

text \<open>
  The URL of the cancel call. An absent or empty \<open>reason\<close> is falsy and gives the bare
  URL. \<open>encodeURIComponent\<close> is the parameter \<open>enc\<close>; \<open>None\<close> is its \<open>URIError\<close>.
\<close>

definition cancel_url :: "(string \<Rightarrow> string option) \<Rightarrow> string \<Rightarrow> string option \<Rightarrow> exn + string" where
  "cancel_url enc taskId reason =
     (case reason of
        None \<Rightarrow> Inr (''/tasks/'' @ taskId @ ''/cancel'')
      | Some r \<Rightarrow>
          if r = [] then Inr (''/tasks/'' @ taskId @ ''/cancel'')
          else (case enc r of
                  None \<Rightarrow> Inl URIError
                | Some e \<Rightarrow> Inr (''/tasks/'' @ taskId @ ''/cancel?reason='' @ e)))"

text \<open>The body of the \<open>try\<close> block of \<open>cancelTask\<close>.\<close>

definition cancelTask_try ::
  "(string \<Rightarrow> string option) \<Rightarrow> (string \<Rightarrow> http) \<Rightarrow> string \<Rightarrow> string option \<Rightarrow> exn + cancel_result" where
  "cancelTask_try enc post taskId reason =
     (case cancel_url enc taskId reason of
        Inl e \<Rightarrow> Inl e
      | Inr url \<Rightarrow>
          (case post url of
             Inl msg \<Rightarrow> Inl (Error msg)
           | Inr NullBody \<Rightarrow> Inl TypeError
           | Inr (Body d) \<Rightarrow>
               if d_status d = Some ''error''
               then Inl (Error (case d_error d of None \<Rightarrow> [] | Some m \<Rightarrow> m))
               else Inr \<lparr>success = True\<rparr>))"

text \<open>\<open>cancelTask\<close>: the \<open>catch\<close> clause logs and returns \<open>{success: false}\<close>.\<close>

definition cancelTask ::
  "(string \<Rightarrow> string option) \<Rightarrow> (string \<Rightarrow> http) \<Rightarrow> string \<Rightarrow> string option \<Rightarrow> exn + cancel_result" where
  "cancelTask enc post taskId reason =
     (case cancelTask_try enc post taskId reason of
        Inl e \<Rightarrow> Inr \<lparr>success = False\<rparr>
      | Inr r \<Rightarrow> Inr r)"

text \<open>
  The specification's condition for success, in its words: the server call completes (the
  request is built and sent, the response is read) without an error status.
\<close>

definition completes_without_error ::
  "(string \<Rightarrow> string option) \<Rightarrow> (string \<Rightarrow> http) \<Rightarrow> string \<Rightarrow> string option \<Rightarrow> bool" where
  "completes_without_error enc post taskId reason =
     (case cancel_url enc taskId reason of
        Inl e \<Rightarrow> False
      | Inr url \<Rightarrow>
          (case post url of
             Inl msg \<Rightarrow> False
           | Inr NullBody \<Rightarrow> False
           | Inr (Body d) \<Rightarrow> d_status d \<noteq> Some ''error''))"

subsection \<open>Tasks and pollTaskCompletion\<close>

text \<open>The enum \<open>TaskStatus\<close> and the interface \<open>Task\<close>; \<open>result\<close> (of type \<open>any\<close>) is kept as text.\<close>

datatype TaskStatus = PENDING | RUNNING | COMPLETED | FAILED | CANCELED | NOT_FOUND

record Task =
  t_id :: string
  t_status :: TaskStatus
  t_type :: "string option"
  t_created_at :: "string option"
  t_started_at :: "string option"
  t_completed_at :: "string option"
  t_result :: "string option"
  t_error :: "string option"
  t_parent_id :: "string option"
  t_subtask_ids :: "string list option"

text \<open>
  The environment of a polling run: what the server answers to the \<open>n\<close>-th status
  fetch (a rejection message, or the body: \<open>None\<close> for \<open>null\<close>, else a snapshot), how
  many milliseconds that fetch takes, by how many milliseconds the \<open>n\<close>-th timer fires
  late, and \<open>Date.now()\<close> at the start.
\<close>

record world =
  respond :: "nat \<Rightarrow> string \<Rightarrow> string + Task option"
  latency :: "nat \<Rightarrow> nat"
  lateness :: "nat \<Rightarrow> nat"
  clock0 :: int

text \<open>
  \<open>getTaskStatus\<close> rethrows a failed fetch as \<open>Error(error.message || ...)\<close> and returns
  \<open>response.data\<close> as it is, \<open>null\<close> included.
\<close>

definition getTaskStatus :: "(string \<Rightarrow> string + Task option) \<Rightarrow> string \<Rightarrow> exn + Task option" where
  "getTaskStatus get taskId =
     (case get (''/tasks/'' @ taskId) of
        Inl msg \<Rightarrow> Inl (Error (if msg = [] then ''Error checking task status'' else msg))
      | Inr data \<Rightarrow> Inr data)"

text \<open>The test \<open>[COMPLETED, FAILED, CANCELED].includes(task.status)\<close>.\<close>

definition is_terminal :: "TaskStatus \<Rightarrow> bool" where
  "is_terminal s = (s \<in> set [COMPLETED, FAILED, CANCELED])"

text \<open>
  The \<open>while\<close> loop of \<open>pollTaskCompletion\<close>. \<open>now\<close> is \<open>Date.now()\<close> at the loop test,
  \<open>n\<close> counts the fetches made and \<open>reqs\<close> records them. Reading \<open>task.status\<close> of a
  \<open>null\<close> body throws a \<open>TypeError\<close>. \<open>setTimeout\<close> waits at least \<open>max 0 interval\<close>.
  The clock belongs to the environment, so the loop may fail to return: not returning is
  \<open>None\<close>.
\<close>

partial_function (option) pollLoop ::
  "world \<Rightarrow> string \<Rightarrow> int \<Rightarrow> int \<Rightarrow> int \<Rightarrow> int \<Rightarrow> nat \<Rightarrow> request list
     \<Rightarrow> ((exn + Task) \<times> request list) option" where
  "pollLoop w taskId interval timeout startTime now n reqs =
     (if now - startTime < timeout then
        (case getTaskStatus (respond w n) taskId of
           Inl e \<Rightarrow> Some (Inl e, reqs @ [GET (''/tasks/'' @ taskId)])
         | Inr None \<Rightarrow> Some (Inl TypeError, reqs @ [GET (''/tasks/'' @ taskId)])
         | Inr (Some task) \<Rightarrow>
             if is_terminal (t_status task)
             then Some (Inr task, reqs @ [GET (''/tasks/'' @ taskId)])
             else pollLoop w taskId interval timeout startTime
                    (now + int (latency w n) + max 0 interval + int (lateness w n))
                    (Suc n) (reqs @ [GET (''/tasks/'' @ taskId)]))
      else Some (Inl (Error ''Task polling timed out''), reqs))"

text \<open>\<open>pollTaskCompletion(taskId, interval = 1000, timeout = 300000)\<close>.\<close>

definition pollTaskCompletion ::
  "world \<Rightarrow> string \<Rightarrow> int option \<Rightarrow> int option \<Rightarrow> ((exn + Task) \<times> request list) option" where
  "pollTaskCompletion w taskId interval timeout =
     pollLoop w taskId (case interval of None \<Rightarrow> 1000 | Some i \<Rightarrow> i)
       (case timeout of None \<Rightarrow> 300000 | Some t \<Rightarrow> t) (clock0 w) (clock0 w) 0 []"

text \<open>\<open>Date.now()\<close> at the loop test before fetch number \<open>n\<close>.\<close>

primrec poll_time :: "world \<Rightarrow> int \<Rightarrow> nat \<Rightarrow> int" where
  "poll_time w interval 0 = clock0 w"
| "poll_time w interval (Suc n) =
     poll_time w interval n + int (latency w n) + max 0 interval + int (lateness w n)"

text \<open>
  In the specification's words: poll number \<open>j\<close> answers with a snapshot whose status is
  none of Completed, Failed and Canceled (it is Pending, Running or not_found).
\<close>

definition nonterminal_at :: "world \<Rightarrow> string \<Rightarrow> nat \<Rightarrow> bool" where
  "nonterminal_at w taskId j =
     (case respond w j (''/tasks/'' @ taskId) of
        Inl msg \<Rightarrow> False
      | Inr None \<Rightarrow> False
      | Inr (Some t) \<Rightarrow> t_status t = PENDING \<or> t_status t = RUNNING \<or> t_status t = NOT_FOUND)"

text \<open>What a poll that ends the loop makes of its answer.\<close>

definition stop_outcome :: "exn + Task option \<Rightarrow> exn + Task" where
  "stop_outcome a = (case a of Inl e \<Rightarrow> Inl e | Inr None \<Rightarrow> Inl TypeError | Inr (Some t) \<Rightarrow> Inr t)"

text \<open>
  The postcondition of the loop entered at poll \<open>n\<close>: it stops at some poll \<open>m\<close>, either
  on the clock or on the first answer that is not a non-terminal snapshot.
\<close>

definition poll_post ::
  "world \<Rightarrow> string \<Rightarrow> int \<Rightarrow> int \<Rightarrow> int \<Rightarrow> int \<Rightarrow> nat \<Rightarrow> request list
     \<Rightarrow> (exn + Task) \<times> request list \<Rightarrow> bool" where
  "poll_post w taskId interval timeout startTime now n reqs y =
   (startTime = clock0 w \<longrightarrow> now = poll_time w interval n \<longrightarrow>
   (\<exists>m\<ge>n. (\<forall>j. n \<le> j \<and> j < m \<longrightarrow> nonterminal_at w taskId j \<and> poll_time w interval j - clock0 w < timeout)
      \<and> ((fst y = Inl (Error ''Task polling timed out'') \<and> timeout \<le> poll_time w interval m - clock0 w
            \<and> snd y = reqs @ replicate (m - n) (GET (''/tasks/'' @ taskId)))
         \<or> (\<not> nonterminal_at w taskId m \<and> poll_time w interval m - clock0 w < timeout
            \<and> fst y = stop_outcome (getTaskStatus (respond w m) taskId)
            \<and> snd y = reqs @ replicate (Suc (m - n)) (GET (''/tasks/'' @ taskId))))))"


text \<open>Example worlds: a snapshot with a given status, and four servers.\<close>

definition snapshot :: "string \<Rightarrow> TaskStatus \<Rightarrow> Task" where
  "snapshot i s = \<lparr>t_id = i, t_status = s, t_type = None, t_created_at = None,
     t_started_at = None, t_completed_at = None, t_result = None, t_error = None,
     t_parent_id = None, t_subtask_ids = None\<rparr>"



definition unknown_id_world :: world where
  "unknown_id_world = \<lparr>respond = (\<lambda>n url. Inr (Some (snapshot ''nope'' NOT_FOUND))),
     latency = (\<lambda>n. 0), lateness = (\<lambda>n. 0), clock0 = 0\<rparr>"


section \<open>browserService (services/browser.ts)\<close>

text \<open>
  A call to the browser API: its path and the fields of its JSON body (or query parameters);
  a field holding \<open>null\<close> is \<open>None\<close>. The server's answer to a call is the parameter
  \<open>server\<close> of every operation.
\<close>

record bcall =
  b_path :: string
  b_fields :: "(string \<times> string option) list"

record BrowserNavigateParams =
  nav_url :: string
  nav_session_id :: "string option"

record BrowserExtractParams =
  ext_url :: string
  ext_selector :: "string option"
  ext_session_id :: "string option"

record BrowserActionParams =
  act_url :: string
  act_task :: string
  act_session_id :: "string option"

text \<open>
  The service's state is \<open>currentSessionId\<close>, threaded through as \<open>cur\<close>.
  \<open>_getSessionId\<close> is \<open>providedId || this.currentSessionId\<close>: an absent or empty id is falsy.
\<close>

definition getSessionId :: "string option \<Rightarrow> string option \<Rightarrow> string option" where
  "getSessionId cur providedId =
     (case providedId of None \<Rightarrow> cur | Some p \<Rightarrow> if p = [] then cur else Some p)"

definition setSessionId :: "string option \<Rightarrow> string \<Rightarrow> string option" where
  "setSessionId cur sessionId = Some sessionId"

text \<open>The object a \<open>catch\<close> clause returns: \<open>{success: false, error: error.message || fallback}\<close>.\<close>

definition failure :: "string \<Rightarrow> string \<Rightarrow> data_fields" where
  "failure msg fallback = \<lparr>d_status = None, d_error = Some (if msg = [] then fallback else msg),
     d_session_id = None, d_success = False\<rparr>"

text \<open>The message of the \<open>TypeError\<close> raised by reading a field of a \<open>null\<close> body.\<close>

definition null_read :: string where
  "null_read = ''Cannot read properties of null''"

text \<open>\<open>if (response.data.session_id) this._setSessionId(response.data.session_id)\<close>.\<close>

definition after_response :: "string option \<Rightarrow> data_fields \<Rightarrow> string option" where
  "after_response cur d =
     (case d_session_id d of
        None \<Rightarrow> cur
      | Some s \<Rightarrow> if s = [] then cur else setSessionId cur s)"

text \<open>
  The shared shape of \<open>navigate\<close>, \<open>extract\<close>, \<open>performAction\<close> and \<open>amazonSearch\<close>: send
  the call, store the session id of the response, return \<open>response.data\<close>; any exception
  leaves the state as it is and returns the failure object. The result is the new
  \<open>currentSessionId\<close>, the returned object and the calls sent.
\<close>

definition session_call ::
  "(bcall \<Rightarrow> http) \<Rightarrow> bcall \<Rightarrow> string \<Rightarrow> string option \<Rightarrow> string option \<times> data_fields \<times> bcall list" where
  "session_call server call fallback cur =
     (case server call of
        Inl msg \<Rightarrow> (cur, failure msg fallback, [call])
      | Inr NullBody \<Rightarrow> (cur, failure null_read fallback, [call])
      | Inr (Body d) \<Rightarrow> (after_response cur d, d, [call]))"

definition navigate ::
  "(bcall \<Rightarrow> http) \<Rightarrow> BrowserNavigateParams \<Rightarrow> string option \<Rightarrow> string option \<times> data_fields \<times> bcall list" where
  "navigate server params cur =
     (let sessionId = getSessionId cur (nav_session_id params)
      in session_call server
           \<lparr>b_path = ''/browser/navigate'',
            b_fields = [(''url'', Some (nav_url params)), (''session_id'', sessionId)]\<rparr>
           ''Failed to navigate'' cur)"

definition browser_extract ::
  "(bcall \<Rightarrow> http) \<Rightarrow> BrowserExtractParams \<Rightarrow> string option \<Rightarrow> string option \<times> data_fields \<times> bcall list" where
  "browser_extract server params cur =
     (let sessionId = getSessionId cur (ext_session_id params)
      in session_call server
           \<lparr>b_path = ''/browser/extract'',
            b_fields = [(''url'', Some (ext_url params))]
              @ (case ext_selector params of None \<Rightarrow> [] | Some s \<Rightarrow> [(''selector'', Some s)])
              @ [(''session_id'', sessionId)]\<rparr>
           ''Failed to extract content'' cur)"

definition performAction ::
  "(bcall \<Rightarrow> http) \<Rightarrow> BrowserActionParams \<Rightarrow> string option \<Rightarrow> string option \<times> data_fields \<times> bcall list" where
  "performAction server params cur =
     (let sessionId = getSessionId cur (act_session_id params)
      in session_call server
           \<lparr>b_path = ''/browser/action'',
            b_fields = [(''url'', Some (act_url params)), (''task'', Some (act_task params)),
                        (''session_id'', sessionId)]\<rparr>
           ''Failed to perform action'' cur)"

definition amazonSearch ::
  "(bcall \<Rightarrow> http) \<Rightarrow> string \<Rightarrow> string option \<Rightarrow> string option \<times> data_fields \<times> bcall list" where
  "amazonSearch server keyword cur =
     session_call server
       \<lparr>b_path = ''/browser/amazon-search'', b_fields = [(''keyword'', Some keyword)]\<rparr>
       ''Failed to search Amazon'' cur"

text \<open>\<open>closeSession\<close> sends nothing when there is no session id to close.\<close>

definition closeSession ::
  "(bcall \<Rightarrow> http) \<Rightarrow> string option \<Rightarrow> string option \<Rightarrow> string option \<times> data_fields \<times> bcall list" where
  "closeSession server session_id cur =
     (case getSessionId cur session_id of
        None \<Rightarrow> (cur, failure ''No session ID provided or stored'' [], [])
      | Some sessionId \<Rightarrow>
          if sessionId = [] then (cur, failure ''No session ID provided or stored'' [], [])
          else
            (let call = \<lparr>b_path = ''/browser/sessions/close'',
                         b_fields = [(''session_id'', Some sessionId)]\<rparr>
             in case server call of
                  Inl msg \<Rightarrow> (cur, failure msg ''Failed to close session'', [call])
                | Inr NullBody \<Rightarrow> (cur, failure null_read ''Failed to close session'', [call])
                | Inr (Body d) \<Rightarrow>
                    (if d_success d \<and> Some sessionId = cur then None else cur, d, [call])))"

text \<open>The parts of an operation's result: the stored id afterwards, and the calls sent.\<close>

definition new_session :: "string option \<times> data_fields \<times> bcall list \<Rightarrow> string option" where
  "new_session r = fst r"

definition calls_of :: "string option \<times> data_fields \<times> bcall list \<Rightarrow> bcall list" where
  "calls_of r = snd (snd r)"

text \<open>The session id a call carries: \<open>None\<close> when the call has no such field.\<close>

definition sent_session_id :: "bcall \<Rightarrow> string option option" where
  "sent_session_id call = map_of (b_fields call) ''session_id''"

text \<open>Two example servers.\<close>

definition ok_server :: "bcall \<Rightarrow> http" where
  "ok_server call = Inr (Body \<lparr>d_status = None, d_error = None,
     d_session_id = Some ''s2'', d_success = True\<rparr>)"

definition refusing_server :: "bcall \<Rightarrow> http" where
  "refusing_server call = Inr (Body \<lparr>d_status = None, d_error = Some ''busy'',
     d_session_id = None, d_success = False\<rparr>)"

section \<open>owlApiService: the push channel (services/api.ts)\<close>

text \<open>
  JavaScript's \<open>String.prototype.trim\<close>. A string is its UTF-8 bytes, so a code point
  beyond ASCII is several characters. \<open>trim\<close> removes, at both ends, every WhiteSpace and
  LineTerminator code point of ECMAScript: U+0009 to U+000D, U+0020, U+00A0, U+1680,
  U+2000 to U+200A, U+2028, U+2029, U+202F, U+205F, U+3000 and U+FEFF.
\<close>

definition js_whitespace :: "string list" where
  "js_whitespace =
     [[CHR 0x09], [CHR 0x0A], [CHR 0x0B], [CHR 0x0C], [CHR 0x0D], [CHR 0x20],
      [CHR 0xC2, CHR 0xA0], [CHR 0xE1, CHR 0x9A, CHR 0x80],
      [CHR 0xE2, CHR 0x80, CHR 0x80], [CHR 0xE2, CHR 0x80, CHR 0x81],
      [CHR 0xE2, CHR 0x80, CHR 0x82], [CHR 0xE2, CHR 0x80, CHR 0x83],
      [CHR 0xE2, CHR 0x80, CHR 0x84], [CHR 0xE2, CHR 0x80, CHR 0x85],
      [CHR 0xE2, CHR 0x80, CHR 0x86], [CHR 0xE2, CHR 0x80, CHR 0x87],
      [CHR 0xE2, CHR 0x80, CHR 0x88], [CHR 0xE2, CHR 0x80, CHR 0x89],
      [CHR 0xE2, CHR 0x80, CHR 0x8A], [CHR 0xE2, CHR 0x80, CHR 0xA8],
      [CHR 0xE2, CHR 0x80, CHR 0xA9], [CHR 0xE2, CHR 0x80, CHR 0xAF],
      [CHR 0xE2, CHR 0x81, CHR 0x9F], [CHR 0xE3, CHR 0x80, CHR 0x80],
      [CHR 0xEF, CHR 0xBB, CHR 0xBF]]"

text \<open>Remove from the front of \<open>s\<close> every leading occurrence of one of the sequences.\<close>

function strip :: "string list \<Rightarrow> string \<Rightarrow> string" where
  "strip seqs s =
     (case find (\<lambda>q. q \<noteq> [] \<and> prefix q s) seqs of
        None \<Rightarrow> s
      | Some q \<Rightarrow> strip seqs (drop (length q) s))"
  by pat_completeness auto
termination
proof (relation "measure (\<lambda>(seqs, s). length s)")
  show "wf (measure (\<lambda>(seqs, s). length s))" by simp
next
  fix seqs :: "string list" and s q :: string
  assume "find (\<lambda>q. q \<noteq> [] \<and> prefix q s) seqs = Some q"
  then have q: "q \<noteq> []" "prefix q s" by (auto simp: find_Some_iff)
  from q(1) have "0 < length q" by simp
  moreover from q(2) have "length q \<le> length s" by (rule prefix_length_le)
  ultimately have "length s - length q < length s" by arith
  then show "((seqs, drop (length q) s), (seqs, s)) \<in> measure (\<lambda>(seqs, s). length s)" by simp
qed

declare strip.simps [simp del]

definition trim :: "string \<Rightarrow> string" where
  "trim s = rev (strip (map rev js_whitespace) (rev (strip js_whitespace s)))"

fun string_of_nat :: "nat \<Rightarrow> string" where
  "string_of_nat n =
     (if n < 10 then [char_of (48 + n)]
      else string_of_nat (n div 10) @ [char_of (48 + n mod 10)])"

declare string_of_nat.simps [simp del]

subsection \<open>Messages on the wire\<close>

text \<open>What the client hands to \<open>ws.send\<close> is \<open>JSON.stringify\<close> of an object literal.\<close>

definition query_msg :: "string \<Rightarrow> string \<Rightarrow> wire" where
  "query_msg query module =
     [(''type'', JString ''query''), (''query'', JString query), (''module'', JString module)]"

definition ping_msg :: "int \<Rightarrow> wire" where
  "ping_msg now = [(''type'', JString ''ping''), (''time'', JNumber now)]"

definition cancel_msg :: "string \<Rightarrow> wire" where
  "cancel_msg taskId = [(''type'', JString ''cancel''), (''task_id'', JString taskId)]"

text \<open>
  What the server pushes, after \<open>JSON.parse\<close>, and what \<open>connectWebSocket\<close> itself passes to
  the \<open>onMessage\<close> callback: the fields the chat panel reads.
\<close>

record Message =
  role :: string
  content :: string
  token_count :: "nat option"
  timestamp :: "string option"

record token_info =
  completion_token_count :: "nat option"
  prompt_token_count :: "nat option"
  total_token_count :: "nat option"

record ws_result =
  answer :: "string option"
  token_info :: "token_info option"
  chat_history :: "Message list option"

record response =
  r_type :: string
  r_status :: "string option"
  r_message :: "string option"
  r_error :: "string option"
  r_result :: "ws_result option"
  r_task_id :: "string option"
  r_browser_mode :: "string option"

definition notice :: "string \<Rightarrow> string option \<Rightarrow> string \<Rightarrow> response" where
  "notice ty st msg = \<lparr>r_type = ty, r_status = st, r_message = Some msg, r_error = None,
     r_result = None, r_task_id = None, r_browser_mode = None\<rparr>"

text \<open>The five notifications \<open>connectWebSocket\<close> produces.\<close>

definition connected_notice :: response where
  "connected_notice = notice ''system'' (Some ''connected'') ''WebSocket connection established successfully''"

definition timeout_notice :: response where
  "timeout_notice = notice ''error'' None
     ''Failed to connect to the server via WebSocket. Falling back to HTTP API.''"

definition error_notice :: response where
  "error_notice = notice ''error'' None
     ''WebSocket connection error. Some features may not work properly.''"

definition closed_notice :: "nat \<Rightarrow> response" where
  "closed_notice code = notice ''error'' None
     (''WebSocket connection closed ('' @ string_of_nat code @ ''). Real-time updates disabled.'')"

definition establish_failed_notice :: response where
  "establish_failed_notice = notice ''error'' None
     ''Failed to establish WebSocket connection. Using HTTP API instead.''"

subsection \<open>The socket and connectWebSocket\<close>

datatype readyState = CONNECTING | OPEN | CLOSING | CLOSED

text \<open>
  A socket together with the closure of \<open>connectWebSocket\<close>: the browser's \<open>readyState\<close>,
  the flag \<open>hasConnected\<close>, whether the five-second \<open>connectionTimeout\<close> is still pending,
  the payloads passed to \<open>ws.send\<close> so far, and whether \<open>ws.send\<close> throws (the
  environment's choice; the callers catch it).
\<close>

record conn =
  readyState :: readyState
  hasConnected :: bool
  timerPending :: bool
  sent :: "wire list"
  send_throws :: bool

text \<open>
  \<open>ws.send(payload)\<close>: the payload is recorded; the boolean tells whether the call returned
  (\<open>True\<close>) or threw (\<open>False\<close>).
\<close>

definition ws_send :: "wire \<Rightarrow> conn \<Rightarrow> bool \<times> conn" where
  "ws_send payload c = (\<not> send_throws c, c\<lparr>sent := sent c @ [payload]\<rparr>)"

text \<open>\<open>ws.close()\<close> starts the closing handshake unless the socket is closing or closed.\<close>

definition ws_close :: "conn \<Rightarrow> conn" where
  "ws_close c = (if readyState c = CLOSING \<or> readyState c = CLOSED then c
                 else c\<lparr>readyState := CLOSING\<rparr>)"

text \<open>
  \<open>connectWebSocket\<close>: a failure to build the URL or the socket is caught, reported and
  answered with \<open>null\<close>; otherwise the socket is returned with its handlers installed.
\<close>

definition new_socket :: conn where
  "new_socket = \<lparr>readyState = CONNECTING, hasConnected = False, timerPending = True,
     sent = [], send_throws = False\<rparr>"

definition connectWebSocket :: "bool \<Rightarrow> conn option \<times> response list" where
  "connectWebSocket constructed =
     (if constructed then (Some new_socket, []) else (None, [establish_failed_notice]))"

text \<open>
  The handlers. Each returns the socket and the calls of \<open>onMessage\<close> it makes. \<open>onopen\<close> is
  the second assignment: it sets \<open>hasConnected\<close> and calls the first one, which clears the
  timer, reports the connection and sends a ping inside \<open>try\<close>.
\<close>

definition on_open :: "int \<Rightarrow> conn \<Rightarrow> conn \<times> response list" where
  "on_open now c =
     (snd (ws_send (ping_msg now) (c\<lparr>hasConnected := True, timerPending := False\<rparr>)),
      [connected_notice])"

definition on_message :: "response option \<Rightarrow> conn \<Rightarrow> conn \<times> response list" where
  "on_message parsed c = (case parsed of None \<Rightarrow> (c, []) | Some data \<Rightarrow> (c, [data]))"

definition on_error :: "conn \<Rightarrow> conn \<times> response list" where
  "on_error c = (c\<lparr>timerPending := False\<rparr>, if hasConnected c then [error_notice] else [])"

definition on_close :: "nat \<Rightarrow> conn \<Rightarrow> conn \<times> response list" where
  "on_close code c =
     (c\<lparr>timerPending := False\<rparr>,
      if code \<noteq> 1000 \<and> hasConnected c then [closed_notice code] else [])"

text \<open>The callback of \<open>connectionTimeout\<close>; a cleared timer does not fire.\<close>

definition on_timeout :: "conn \<Rightarrow> conn \<times> response list" where
  "on_timeout c =
     (if \<not> timerPending c then (c, [])
      else if readyState c \<noteq> OPEN then (ws_close (c\<lparr>timerPending := False\<rparr>), [timeout_notice])
      else (c\<lparr>timerPending := False\<rparr>, []))"

text \<open>
  What happens to a socket: the browser opens it, reports an error, closes it with a code,
  delivers a frame (\<open>None\<close> when \<open>JSON.parse\<close> fails), or the timer fires. The browser sets
  \<open>readyState\<close> before it calls the handler.
\<close>

datatype ws_event = Opened int | Errored | Closed nat | Received "response option" | TimerFired

fun ws_step :: "ws_event \<Rightarrow> conn \<Rightarrow> conn \<times> response list" where
  "ws_step (Opened now) c = on_open now (c\<lparr>readyState := OPEN\<rparr>)"
| "ws_step Errored c = on_error c"
| "ws_step (Closed code) c = on_close code (c\<lparr>readyState := CLOSED\<rparr>)"
| "ws_step (Received parsed) c = on_message parsed c"
| "ws_step TimerFired c = on_timeout c"

fun ws_run :: "ws_event list \<Rightarrow> conn \<Rightarrow> conn \<times> response list" where
  "ws_run [] c = (c, [])"
| "ws_run (e # es) c =
     (let (c1, out1) = ws_step e c; (c2, out2) = ws_run es c1 in (c2, out1 @ out2))"

fun is_opened :: "ws_event \<Rightarrow> bool" where
  "is_opened (Opened now) = True"
| "is_opened e = False"

fun is_received :: "ws_event \<Rightarrow> bool" where
  "is_received (Received parsed) = True"
| "is_received e = False"

subsection \<open>Sending\<close>

definition sendWebSocketQuery :: "conn \<Rightarrow> string \<Rightarrow> string option \<Rightarrow> bool \<times> conn" where
  "sendWebSocketQuery ws query module =
     (if readyState ws \<noteq> OPEN then (False, ws)
      else ws_send (query_msg query (case module of None \<Rightarrow> ''run'' | Some m \<Rightarrow> m)) ws)"

definition sendWebSocketPing :: "conn \<Rightarrow> int \<Rightarrow> bool \<times> conn" where
  "sendWebSocketPing ws now =
     (if readyState ws \<noteq> OPEN then (False, ws) else ws_send (ping_msg now) ws)"

definition cancelWebSocketTask :: "conn \<Rightarrow> string \<Rightarrow> bool \<times> conn" where
  "cancelWebSocketTask ws taskId =
     (if readyState ws \<noteq> OPEN then (False, ws) else ws_send (cancel_msg taskId) ws)"

text \<open>
  The three client-to-server shapes of the specification: an object with exactly the
  named fields, \<open>type\<close> holding the tag.
\<close>

definition has_fields :: "wire \<Rightarrow> string list \<Rightarrow> bool" where
  "has_fields m ks = (distinct (map fst m) \<and> set (map fst m) = set ks)"

definition query_shape :: "wire \<Rightarrow> bool" where
  "query_shape m = (has_fields m [''type'', ''query'', ''module'']
     \<and> map_of m ''type'' = Some (JString ''query''))"

definition cancel_shape :: "wire \<Rightarrow> bool" where
  "cancel_shape m = (has_fields m [''type'', ''task_id'']
     \<and> map_of m ''type'' = Some (JString ''cancel''))"

definition ping_shape :: "wire \<Rightarrow> bool" where
  "ping_shape m = (has_fields m [''type'', ''time'']
     \<and> map_of m ''type'' = Some (JString ''ping''))"

definition wire_shape :: "wire \<Rightarrow> bool" where
  "wire_shape m = (query_shape m \<or> cancel_shape m \<or> ping_shape m)"

text \<open>Everything the client does with a socket that can send.\<close>

datatype ws_use = Event ws_event | Query string "string option" | Ping int | Cancel string
  | Throws bool

fun ws_use_step :: "ws_use \<Rightarrow> conn \<Rightarrow> conn" where
  "ws_use_step (Event e) c = fst (ws_step e c)"
| "ws_use_step (Query q m) c = snd (sendWebSocketQuery c q m)"
| "ws_use_step (Ping now) c = snd (sendWebSocketPing c now)"
| "ws_use_step (Cancel taskId) c = snd (cancelWebSocketTask c taskId)"
| "ws_use_step (Throws b) c = c\<lparr>send_throws := b\<rparr>"

subsection \<open>runQuery: the polling transport of the chat panel\<close>

text \<open>
  The server as \<open>runQuery\<close> sees it. \<open>start\<close> answers \<open>POST /run/async\<close> with the given
  body by a rejection (the interceptor's \<open>formattedMessage\<close>) or by \<open>data?.task_id\<close>;
  \<open>task_poll n\<close> answers the \<open>n\<close>-th \<open>GET /run/task/<id>\<close> with a rejection or the body
  (\<open>None\<close> for \<open>null\<close>).
\<close>

record run_status =
  rs_status :: "string option"
  rs_result :: "ws_result option"
  rs_error :: "string option"

record rest_env =
  start :: "wire \<Rightarrow> string + string option"
  task_poll :: "nat \<Rightarrow> string \<Rightarrow> string + run_status option"

text \<open>
  An axios rejection carries \<open>formattedMessage\<close>; an \<open>Error\<close> thrown by \<open>runQuery\<close> itself,
  or a \<open>TypeError\<close>, does not.
\<close>

datatype rest_error = Rejected string | Plain string

record QueryResult =
  qr_answer :: "string option"
  qr_tokenCount :: string
  qr_status :: string
  qr_chat_history :: "Message list option"

text \<open>
  The loop \<open>while (!completed && retries < maxRetries)\<close>: \<open>retries\<close> polls are done,
  \<open>left\<close> are allowed still. A status other than \<open>completed\<close> and \<open>error\<close> polls again.
\<close>

fun run_poll ::
  "rest_env \<Rightarrow> string \<Rightarrow> nat \<Rightarrow> nat \<Rightarrow> request list \<Rightarrow> (rest_error + ws_result option) \<times> request list" where
  "run_poll env taskId retries 0 reqs = (Inl (Plain ''Task timed out after 60 seconds''), reqs)"
| "run_poll env taskId retries (Suc left) reqs =
     (case task_poll env retries taskId of
        Inl fm \<Rightarrow> (Inl (Rejected fm), reqs @ [GET (''/run/task/'' @ taskId)])
      | Inr None \<Rightarrow> (Inl (Plain null_read), reqs @ [GET (''/run/task/'' @ taskId)])
      | Inr (Some st) \<Rightarrow>
          if rs_status st = Some ''completed''
          then (Inr (rs_result st), reqs @ [GET (''/run/task/'' @ taskId)])
          else if rs_status st = Some ''error''
          then (Inl (Plain (case rs_error st of None \<Rightarrow> ''Task failed''
                           | Some m \<Rightarrow> if m = [] then ''Task failed'' else m)),
                reqs @ [GET (''/run/task/'' @ taskId)])
          else run_poll env taskId (Suc retries) left (reqs @ [GET (''/run/task/'' @ taskId)]))"

definition or_zero :: "nat option \<Rightarrow> nat" where
  "or_zero n = (case n of None \<Rightarrow> 0 | Some k \<Rightarrow> k)"

definition token_text :: "nat \<Rightarrow> nat \<Rightarrow> nat \<Rightarrow> string" where
  "token_text c p t = ''Completion: '' @ string_of_nat c @ '' | Prompt: '' @ string_of_nat p
     @ '' | Total: '' @ string_of_nat t"

definition format_result :: "ws_result \<Rightarrow> QueryResult" where
  "format_result res =
     (let completionTokens = (case token_info res of None \<Rightarrow> 0 | Some ti \<Rightarrow> or_zero (completion_token_count ti));
          promptTokens = (case token_info res of None \<Rightarrow> 0 | Some ti \<Rightarrow> or_zero (prompt_token_count ti));
          total = (case token_info res of None \<Rightarrow> 0 | Some ti \<Rightarrow> or_zero (total_token_count ti));
          totalTokens = (if total = 0 then completionTokens + promptTokens else total)
      in \<lparr>qr_answer = answer res,
          qr_tokenCount = token_text completionTokens promptTokens totalTokens,
          qr_status = [CHR 0xE2, CHR 0x9C, CHR 0x85] @ '' Successfully completed'',
          qr_chat_history = chat_history res\<rparr>)"

text \<open>
  \<open>runQuery({query, module = 'run'})\<close>: the body of the POST is \<open>{query, module}\<close>; then the
  loop with \<open>maxRetries = 60\<close>; destructuring a missing \<open>result\<close> throws.
\<close>

definition run_body :: "string \<Rightarrow> string option \<Rightarrow> wire" where
  "run_body query module =
     [(''query'', JString query),
      (''module'', JString (case module of None \<Rightarrow> ''run'' | Some m \<Rightarrow> m))]"

definition runQuery ::
  "rest_env \<Rightarrow> string \<Rightarrow> string option \<Rightarrow> (rest_error + QueryResult) \<times> request list" where
  "runQuery env query module =
     (case start env (run_body query module) of
        Inl fm \<Rightarrow> (Inl (Rejected fm), [POST ''/run/async'' (run_body query module)])
      | Inr None \<Rightarrow>
          (Inl (Plain ''No task ID returned from API''), [POST ''/run/async'' (run_body query module)])
      | Inr (Some taskId) \<Rightarrow>
          if taskId = []
          then (Inl (Plain ''No task ID returned from API''), [POST ''/run/async'' (run_body query module)])
          else (case run_poll env taskId 0 60 [POST ''/run/async'' (run_body query module)] of
                  (Inl e, reqs) \<Rightarrow> (Inl e, reqs)
                | (Inr None, reqs) \<Rightarrow> (Inl (Plain null_read), reqs)
                | (Inr (Some res), reqs) \<Rightarrow> (Inr (format_result res), reqs)))"

text \<open>
  In the specification's words for this loop: poll number \<open>j\<close> answers with a body whose
  status is neither \<open>completed\<close> nor \<open>error\<close>, so the task is taken to be running still.
\<close>

definition run_pending :: "rest_env \<Rightarrow> string \<Rightarrow> nat \<Rightarrow> bool" where
  "run_pending env taskId j =
     (case task_poll env j taskId of
        Inl fm \<Rightarrow> False
      | Inr None \<Rightarrow> False
      | Inr (Some st) \<Rightarrow> rs_status st \<noteq> Some ''completed'' \<and> rs_status st \<noteq> Some ''error'')"

text \<open>What the poll that ends \<open>runQuery\<close>'s loop makes of its answer.\<close>

definition run_stop :: "string + run_status option \<Rightarrow> rest_error + ws_result option" where
  "run_stop a =
     (case a of
        Inl fm \<Rightarrow> Inl (Rejected fm)
      | Inr None \<Rightarrow> Inl (Plain null_read)
      | Inr (Some st) \<Rightarrow>
          if rs_status st = Some ''completed'' then Inr (rs_result st)
          else Inl (Plain (case rs_error st of None \<Rightarrow> ''Task failed''
                          | Some m \<Rightarrow> if m = [] then ''Task failed'' else m)))"

section \<open>ConversationPanel (the chat panel)\<close>

datatype panel_status = Idle | Loading | Success | Failure

record panel =
  messages :: "Message list"
  input :: string
  loading :: bool
  status :: panel_status
  tokenCount :: string

definition bubble :: "string \<Rightarrow> string \<Rightarrow> string \<Rightarrow> Message" where
  "bubble r c ts = \<lparr>role = r, content = c, token_count = None, timestamp = Some ts\<rparr>"

definition initial_panel :: "string \<Rightarrow> panel" where
  "initial_panel ts = \<lparr>messages = [bubble ''assistant'' ''How can I help you today?'' ts],
     input = [], loading = False, status = Idle, tokenCount = []\<rparr>"

definition without_loading :: "Message list \<Rightarrow> Message list" where
  "without_loading prev = filter (\<lambda>msg. role msg \<noteq> ''loading'') prev"

definition stamped :: "string \<Rightarrow> Message list \<Rightarrow> Message list" where
  "stamped ts history = map (\<lambda>msg. msg\<lparr>timestamp := Some ts\<rparr>) history"

definition or_text :: "string option \<Rightarrow> string \<Rightarrow> string" where
  "or_text s fallback = (case s of None \<Rightarrow> fallback | Some t \<Rightarrow> if t = [] then fallback else t)"

text \<open>The filter of the branch \<open>system\<close>/\<open>connected\<close>.\<close>

definition clear_connection_errors :: "Message list \<Rightarrow> Message list" where
  "clear_connection_errors prev =
     filter (\<lambda>msg. \<not> (role msg = ''error''
        \<and> (str_includes (content msg) ''WebSocket'' \<or> str_includes (content msg) ''connection''))) prev"

text \<open>The branch \<open>status\<close>/\<open>completed\<close> with a result: the three ways to show it.\<close>

definition show_completed :: "string \<Rightarrow> ws_result \<Rightarrow> Message list \<Rightarrow> Message list" where
  "show_completed ts res prev =
     (case chat_history res of
        Some (m # ms) \<Rightarrow> without_loading prev @ stamped ts (m # ms)
      | _ \<Rightarrow>
          (case answer res of
             Some a \<Rightarrow>
               if trim a \<noteq> [] then without_loading prev @ [bubble ''assistant'' a ts]
               else without_loading prev @ [bubble ''error''
                 ''Empty response received. The browser process may have failed to return results.'' ts]
           | None \<Rightarrow> without_loading prev @ [bubble ''error''
                 ''Empty response received. The browser process may have failed to return results.'' ts]))"

definition thinking_text :: "string \<Rightarrow> string" where
  "thinking_text mode = ''Thinking... ('' @
     (if mode = ''visible'' then ''Browser window should open shortly'' else ''Headless browser mode'')
     @ '')''"

definition show_browser_mode :: "string \<Rightarrow> string \<Rightarrow> Message list \<Rightarrow> Message list" where
  "show_browser_mode ts mode prev =
     (if prev \<noteq> [] \<and> role (last prev) = ''loading''
      then butlast prev @ [bubble ''loading'' (thinking_text mode) ts]
      else prev)"

fun update_first_loading :: "string \<Rightarrow> string \<Rightarrow> Message list \<Rightarrow> Message list" where
  "update_first_loading ts text [] = []"
| "update_first_loading ts text (m # ms) =
     (if role m = ''loading'' then m\<lparr>content := text, timestamp := Some ts\<rparr> # ms
      else m # update_first_loading ts text ms)"

text \<open>
  \<open>handleWebSocketMessage\<close>. \<open>seen_loading\<close> is the value of \<open>loading\<close> captured by the
  closure that was handed to \<open>connectWebSocket\<close>; \<open>ts\<close> is \<open>formatTimestamp()\<close>.
\<close>

definition handleWebSocketMessage :: "bool \<Rightarrow> string \<Rightarrow> response \<Rightarrow> panel \<Rightarrow> panel" where
  "handleWebSocketMessage seen_loading ts response p =
     (if r_type response = ''system'' \<and> r_status response = Some ''connected''
      then p\<lparr>messages := clear_connection_errors (messages p)\<rparr>
      else if r_type response = ''ack'' then p
      else if r_type response = ''status'' then
        (if r_status response = Some ''completed'' \<and> r_result response \<noteq> None then
           (case r_result response of
              None \<Rightarrow> p
            | Some res \<Rightarrow>
                p\<lparr>messages := show_completed ts res (messages p),
                  tokenCount := (case token_info res of
                      None \<Rightarrow> tokenCount p
                    | Some ti \<Rightarrow> token_text (or_zero (completion_token_count ti))
                        (or_zero (prompt_token_count ti)) (or_zero (total_token_count ti))),
                  status := Success, loading := False\<rparr>)
         else if r_status response = Some ''error'' then
           p\<lparr>status := Failure, loading := False,
             messages := without_loading (messages p) @
               [bubble ''error'' (or_text (r_error response) ''An error occurred processing your request'') ts]\<rparr>
         else if r_status response = Some ''processing'' \<and> or_text (r_browser_mode response) [] \<noteq> [] then
           p\<lparr>messages := show_browser_mode ts (or_text (r_browser_mode response) []) (messages p)\<rparr>
         else p)
      else if r_type response = ''log'' then
        (if seen_loading
         then p\<lparr>messages := update_first_loading ts (or_text (r_message response) ''Thinking...'') (messages p)\<rparr>
         else p)
      else if r_type response = ''error'' then
        p\<lparr>status := Failure, loading := False,
          messages := without_loading (messages p) @
            [bubble ''error'' (or_text (r_message response) ''An unexpected error occurred'') ts]\<rparr>
      else p)"

text \<open>\<open>sendRESTQuery\<close>: a thrown error is passed on to \<open>handleSubmit\<close>.\<close>

definition show_rest_result :: "string \<Rightarrow> QueryResult \<Rightarrow> Message list \<Rightarrow> Message list" where
  "show_rest_result ts result prev =
     (case qr_chat_history result of
        Some (m # ms) \<Rightarrow> stamped ts (m # ms)
      | _ \<Rightarrow> without_loading prev @ [bubble ''assistant'' (or_text (qr_answer result) []) ts])"

definition sendRESTQuery ::
  "rest_env \<Rightarrow> string \<Rightarrow> string \<Rightarrow> string \<Rightarrow> panel \<Rightarrow> (rest_error + panel) \<times> request list" where
  "sendRESTQuery env ts selectedModule query p =
     (case runQuery env query (Some selectedModule) of
        (Inl e, reqs) \<Rightarrow> (Inl e, reqs)
      | (Inr result, reqs) \<Rightarrow>
          (Inr (p\<lparr>messages := show_rest_result ts result (messages p),
                 tokenCount := qr_tokenCount result, status := Success, loading := False\<rparr>), reqs))"

text \<open>
  The component: its state, the socket in \<open>wsRef\<close>, whether the ping interval is running,
  and how often \<open>connectWebSocket\<close> has been called.
\<close>

record client =
  view :: panel
  wsRef :: "conn option"
  pinging :: bool
  connects :: nat

definition rest_fallback ::
  "rest_env \<Rightarrow> string \<Rightarrow> string \<Rightarrow> string \<Rightarrow> client \<Rightarrow> client \<times> request list" where
  "rest_fallback env ts selectedModule query cl =
     (case sendRESTQuery env ts selectedModule query (view cl) of
        (Inr p, reqs) \<Rightarrow> (cl\<lparr>view := p\<rparr>, reqs)
      | (Inl e, reqs) \<Rightarrow>
          (cl\<lparr>view := (view cl)\<lparr>status := Failure, loading := False,
              messages := without_loading (messages (view cl)) @
                [bubble ''error''
                   (case e of Rejected fm \<Rightarrow> or_text (Some fm) ''An error occurred processing your request''
                            | Plain m \<Rightarrow> ''An error occurred processing your request'') ts]\<rparr>\<rparr>,
           reqs))"

text \<open>
  \<open>handleSubmit\<close>. The guard returns at once; otherwise the user's message and the loading
  bubble are shown and the query goes to the socket when it is open, to \<open>sendRESTQuery\<close>
  when it is not or when \<open>sendWebSocketQuery\<close> answers \<open>false\<close>.
\<close>

definition accepted :: "client \<Rightarrow> bool" where
  "accepted cl = (trim (input (view cl)) \<noteq> [] \<and> \<not> loading (view cl))"

definition handleSubmit ::
  "rest_env \<Rightarrow> string \<Rightarrow> string \<Rightarrow> client \<Rightarrow> client \<times> request list" where
  "handleSubmit env ts selectedModule cl =
     (if \<not> accepted cl then (cl, [])
      else
        (let query = input (view cl);
             shown = cl\<lparr>view := (view cl)\<lparr>input := [],
                 messages := messages (view cl) @
                   [bubble ''user'' (trim query) ts, bubble ''loading'' ''Thinking...'' ts],
                 loading := True, status := Loading\<rparr>\<rparr>
         in case wsRef cl of
              None \<Rightarrow> rest_fallback env ts selectedModule query shown
            | Some ws \<Rightarrow>
                if readyState ws = OPEN then
                  (case sendWebSocketQuery ws query (Some selectedModule) of
                     (True, ws') \<Rightarrow> (shown\<lparr>wsRef := Some ws'\<rparr>, [])
                   | (False, ws') \<Rightarrow>
                       rest_fallback env ts selectedModule query (shown\<lparr>wsRef := Some ws'\<rparr>))
                else rest_fallback env ts selectedModule query shown))"

text \<open>
  The mount effect with its cleanup, the interval callback, and the delivery of a socket
  event to the handlers and on to \<open>handleWebSocketMessage\<close> (whose closure saw
  \<open>loading = false\<close>).
\<close>

definition mount :: "bool \<Rightarrow> string \<Rightarrow> client \<Rightarrow> client" where
  "mount constructed ts cl =
     (case connectWebSocket constructed of
        (ws, notes) \<Rightarrow>
          cl\<lparr>view := fold (handleWebSocketMessage False ts) notes (view cl),
             wsRef := ws, pinging := True, connects := Suc (connects cl)\<rparr>)"

definition unmount :: "client \<Rightarrow> client" where
  "unmount cl = cl\<lparr>pinging := False, wsRef := None\<rparr>"

definition ping_tick :: "int \<Rightarrow> client \<Rightarrow> client" where
  "ping_tick now cl =
     (if \<not> pinging cl then cl
      else case wsRef cl of
             None \<Rightarrow> cl
           | Some ws \<Rightarrow>
               if readyState ws = OPEN then cl\<lparr>wsRef := Some (snd (sendWebSocketPing ws now))\<rparr>
               else cl)"

definition socket_event :: "string \<Rightarrow> ws_event \<Rightarrow> client \<Rightarrow> client" where
  "socket_event ts e cl =
     (case wsRef cl of
        None \<Rightarrow> cl
      | Some ws \<Rightarrow>
          (case ws_step e ws of
             (ws', notes) \<Rightarrow>
               cl\<lparr>view := fold (handleWebSocketMessage False ts) notes (view cl),
                  wsRef := Some ws'\<rparr>))"

datatype client_event = Tick int | Socket ws_event | Typed string | Submit | Unmount

fun client_step :: "rest_env \<Rightarrow> string \<Rightarrow> string \<Rightarrow> client_event \<Rightarrow> client \<Rightarrow> client" where
  "client_step env ts selectedModule (Tick now) cl = ping_tick now cl"
| "client_step env ts selectedModule (Socket e) cl = socket_event ts e cl"
| "client_step env ts selectedModule (Typed text) cl = cl\<lparr>view := (view cl)\<lparr>input := text\<rparr>\<rparr>"
| "client_step env ts selectedModule Submit cl = fst (handleSubmit env ts selectedModule cl)"
| "client_step env ts selectedModule Unmount cl = unmount cl"

definition fresh_client :: "string \<Rightarrow> client" where
  "fresh_client ts = \<lparr>view = initial_panel ts, wsRef = None, pinging = False, connects = 0\<rparr>"

text \<open>The four error notifications \<open>connectWebSocket\<close> can produce (the transport errors).\<close>

definition transport_errors :: "nat \<Rightarrow> response list" where
  "transport_errors code = [timeout_notice, error_notice, closed_notice code, establish_failed_notice]"

text \<open>Identity of a chat message for deduplication: role and content.\<close>

definition identity :: "Message \<Rightarrow> string \<times> string" where
  "identity m = (role m, content m)"

section \<open>Example inputs and observations\<close>

text \<open>
  A live view of the chat panel after the question \<open>2+2\<close>, and the history the server
  returns for it.
\<close>

definition live_view :: "Message list" where
  "live_view = [bubble ''assistant'' ''How can I help you today?'' ''10:00'',
     bubble ''user'' ''2+2'' ''10:01'', bubble ''loading'' ''Thinking...'' ''10:01'']"

definition history_2plus2 :: "Message list" where
  "history_2plus2 = [\<lparr>role = ''user'', content = ''2+2'', token_count = None, timestamp = None\<rparr>,
     \<lparr>role = ''assistant'', content = ''4'', token_count = Some 7, timestamp = None\<rparr>]"

text \<open>A view that still shows a transport error.\<close>

definition stale_error_view :: "Message list" where
  "stale_error_view = [bubble ''assistant'' ''How can I help you today?'' ''10:00'',
     bubble ''error'' ''WebSocket connection error. Some features may not work properly.'' ''10:01'',
     bubble ''user'' ''hi'' ''10:02'', bubble ''loading'' ''Thinking...'' ''10:02'']"

text \<open>
  What a step of the component hands to the socket, whether the channel is open, and
  whether a send on it throws.
\<close>

definition pushed :: "client \<Rightarrow> client \<Rightarrow> wire list" where
  "pushed before after =
     (case (wsRef before, wsRef after) of
        (Some ws, Some ws') \<Rightarrow> drop (length (sent ws)) (sent ws')
      | _ \<Rightarrow> [])"

definition channel_open :: "client \<Rightarrow> bool" where
  "channel_open cl = (case wsRef cl of None \<Rightarrow> False | Some ws \<Rightarrow> readyState ws = OPEN)"

definition push_fails :: "client \<Rightarrow> bool" where
  "push_fails cl = (case wsRef cl of None \<Rightarrow> False | Some ws \<Rightarrow> send_throws ws)"

text \<open>Example clients and servers for the chat panel.\<close>

definition answering_env :: rest_env where
  "answering_env = \<lparr>start = (\<lambda>body. Inr (Some ''t1'')),
     task_poll = (\<lambda>n t. Inr (Some \<lparr>rs_status = Some (if n = 0 then ''running'' else ''completed''),
        rs_result = Some \<lparr>answer = Some ''4'', token_info = None, chat_history = None\<rparr>,
        rs_error = None\<rparr>))\<rparr>"


definition open_socket :: conn where
  "open_socket = \<lparr>readyState = OPEN, hasConnected = True, timerPending = False,
     sent = [ping_msg 0], send_throws = False\<rparr>"

definition asking :: "conn option \<Rightarrow> client" where
  "asking ws = \<lparr>view = (initial_panel ''10:00'')\<lparr>input := ''2+2''\<rparr>, wsRef = ws,
     pinging = True, connects = 1\<rparr>"

fun is_tick :: "client_event \<Rightarrow> bool" where
  "is_tick (Tick now) = True"
| "is_tick e = False"

text \<open>A mounted panel whose socket opens and then stays silent through three ping intervals.\<close>

definition silent_run :: client where
  "silent_run = fold (client_step answering_env ''10:00'' ''run_mini'')
     [Socket (Opened 0), Tick 30000, Tick 60000, Tick 90000]
     (mount True ''10:00'' (fresh_client ''10:00''))"

section \<open>Properties\<close>

subsection \<open>Cancellation\<close>

text \<open>
  C8. For every task id and optional reason the polling cancellation returns a result of
  shape \<open>{success: bool}\<close> and never throws to its caller; \<open>success\<close> is true exactly when
  the server call completes without an error status, and false on any transport or server
  error.
\<close>

theorem cancelTask_never_throws:
  "cancelTask enc post taskId reason =
     Inr \<lparr>success = completes_without_error enc post taskId reason\<rparr>"
  by (simp add: cancelTask_def cancelTask_try_def completes_without_error_def
      split: sum.splits body.splits)

theorem cancelTask_never_throws_witness:
  "cancelTask Some (\<lambda>u. Inl ''Network Error'') ''t1'' None = Inr \<lparr>success = False\<rparr>
   \<and> cancelTask Some (\<lambda>u. Inr (Body \<lparr>d_status = Some ''error'', d_error = Some ''no such task'',
          d_session_id = None, d_success = False\<rparr>)) ''t1'' (Some ''stop'') = Inr \<lparr>success = False\<rparr>
   \<and> cancelTask Some (\<lambda>u. Inr (Body \<lparr>d_status = Some ''canceled'', d_error = None,
          d_session_id = None, d_success = True\<rparr>)) ''t1'' (Some ''stop'') = Inr \<lparr>success = True\<rparr>"
  using cancelTask_never_throws [of Some "\<lambda>u. Inl ''Network Error''" "''t1''" None]
    cancelTask_never_throws [of Some "\<lambda>u. Inr (Body \<lparr>d_status = Some ''error'',
          d_error = Some ''no such task'', d_session_id = None, d_success = False\<rparr>)" "''t1''" "Some ''stop''"]
    cancelTask_never_throws [of Some "\<lambda>u. Inr (Body \<lparr>d_status = Some ''canceled'',
          d_error = None, d_session_id = None, d_success = True\<rparr>)" "''t1''" "Some ''stop''"]
  by (simp add: completes_without_error_def cancel_url_def)

subsection \<open>The polling loops\<close>

lemma is_terminal_iff:
  "is_terminal s = (s = COMPLETED \<or> s = FAILED \<or> s = CANCELED)"
  "(\<not> is_terminal s) = (s = PENDING \<or> s = RUNNING \<or> s = NOT_FOUND)"
  by (cases s; simp add: is_terminal_def)+

lemma pollLoop_stop:
  "\<not> now - startTime < timeout \<Longrightarrow>
   pollLoop w taskId interval timeout startTime now n reqs
     = Some (Inl (Error ''Task polling timed out''), reqs)"
  by (subst pollLoop.simps) simp

lemma pollLoop_fetch_failed:
  "now - startTime < timeout \<Longrightarrow> getTaskStatus (respond w n) taskId = Inl e \<Longrightarrow>
   pollLoop w taskId interval timeout startTime now n reqs
     = Some (Inl e, reqs @ [GET (''/tasks/'' @ taskId)])"
  by (subst pollLoop.simps) simp

lemma pollLoop_null:
  "now - startTime < timeout \<Longrightarrow> getTaskStatus (respond w n) taskId = Inr None \<Longrightarrow>
   pollLoop w taskId interval timeout startTime now n reqs
     = Some (Inl TypeError, reqs @ [GET (''/tasks/'' @ taskId)])"
  by (subst pollLoop.simps) simp

lemma pollLoop_return:
  "now - startTime < timeout \<Longrightarrow> getTaskStatus (respond w n) taskId = Inr (Some t) \<Longrightarrow>
   is_terminal (t_status t) \<Longrightarrow>
   pollLoop w taskId interval timeout startTime now n reqs
     = Some (Inr t, reqs @ [GET (''/tasks/'' @ taskId)])"
  by (subst pollLoop.simps) simp

lemma pollLoop_again:
  "now - startTime < timeout \<Longrightarrow> getTaskStatus (respond w n) taskId = Inr (Some t) \<Longrightarrow>
   \<not> is_terminal (t_status t) \<Longrightarrow>
   pollLoop w taskId interval timeout startTime now n reqs
     = pollLoop w taskId interval timeout startTime
         (now + int (latency w n) + max 0 interval + int (lateness w n)) (Suc n)
         (reqs @ [GET (''/tasks/'' @ taskId)])"
  by (subst pollLoop.simps) simp

lemma nonterminal_atD:
  "nonterminal_at w taskId n \<Longrightarrow>
   \<exists>t. getTaskStatus (respond w n) taskId = Inr (Some t) \<and> \<not> is_terminal (t_status t)"
  by (auto simp: nonterminal_at_def getTaskStatus_def is_terminal_iff split: sum.splits option.splits)

lemma not_nonterminal_cases:
  assumes "\<not> nonterminal_at w taskId n"
  shows "(\<exists>e. getTaskStatus (respond w n) taskId = Inl e)
     \<or> getTaskStatus (respond w n) taskId = Inr None
     \<or> (\<exists>t. getTaskStatus (respond w n) taskId = Inr (Some t) \<and> is_terminal (t_status t))"
proof (cases "respond w n (''/tasks/'' @ taskId)")
  case (Inl msg)
  then show ?thesis by (simp add: getTaskStatus_def)
next
  case (Inr d)
  show ?thesis
  proof (cases d)
    case None
    with Inr show ?thesis by (simp add: getTaskStatus_def)
  next
    case (Some t)
    with Inr assms have "is_terminal (t_status t)"
      by (cases "t_status t") (simp_all add: nonterminal_at_def is_terminal_def)
    with Inr Some show ?thesis by (simp add: getTaskStatus_def)
  qed
qed

lemma not_nonterminal_stop:
  assumes "\<not> nonterminal_at w taskId n" "now - startTime < timeout"
  shows "pollLoop w taskId interval timeout startTime now n reqs
     = Some (stop_outcome (getTaskStatus (respond w n) taskId), reqs @ [GET (''/tasks/'' @ taskId)])"
  using not_nonterminal_cases[OF assms(1)] assms(2)
  by (auto simp add: pollLoop_fetch_failed pollLoop_null pollLoop_return stop_outcome_def)

lemma pollLoop_char_aux:
  assumes "pollLoop w taskId interval timeout startTime now n reqs = Some y"
  shows "poll_post w taskId interval timeout startTime now n reqs y"
proof (rule pollLoop.raw_induct[where P = poll_post, OF _ assms], goal_cases)
  case (1 pollLoop' w taskId interval timeout startTime now n reqs y)
  show ?case unfolding poll_post_def
  proof (intro impI)
    assume st: "startTime = clock0 w" and now: "now = poll_time w interval n"
    let ?url = "''/tasks/'' @ taskId"
    let ?A = "\<lambda>k m. \<forall>j. k \<le> j \<and> j < m \<longrightarrow> nonterminal_at w taskId j \<and> poll_time w interval j - clock0 w < timeout"
    let ?T = "\<lambda>rs k m. fst y = Inl (Error ''Task polling timed out'') \<and> timeout \<le> poll_time w interval m - clock0 w
            \<and> snd y = rs @ replicate (m - k) (GET ?url)"
    let ?S = "\<lambda>rs k m. \<not> nonterminal_at w taskId m \<and> poll_time w interval m - clock0 w < timeout
            \<and> fst y = stop_outcome (getTaskStatus (respond w m) taskId)
            \<and> snd y = rs @ replicate (Suc (m - k)) (GET ?url)"
    show "\<exists>m\<ge>n. ?A n m \<and> (?T reqs n m \<or> ?S reqs n m)"
    proof (cases "now - startTime < timeout")
      case False
      with 1(2) have "y = (Inl (Error ''Task polling timed out''), reqs)" by simp
      with False st now have "?T reqs n n" by simp
      then have "?A n n \<and> (?T reqs n n \<or> ?S reqs n n)" by auto
      then show ?thesis by blast
    next
      case True
      note lt = True
      show ?thesis
      proof (cases "nonterminal_at w taskId n")
        case False
        from not_nonterminal_cases[OF False] 1(2) lt
        have "y = (stop_outcome (getTaskStatus (respond w n) taskId), reqs @ [GET ?url])"
          by (auto simp: stop_outcome_def)
        with False lt st now have "?S reqs n n" by simp
        then have "?A n n \<and> (?T reqs n n \<or> ?S reqs n n)" by auto
        then show ?thesis by blast
      next
        case True
        from nonterminal_atD[OF True] obtain t where
          t: "getTaskStatus (respond w n) taskId = Inr (Some t)" "\<not> is_terminal (t_status t)"
          by blast
        with 1(2) lt have rec: "pollLoop' w taskId interval timeout startTime
             (now + int (latency w n) + max 0 interval + int (lateness w n)) (Suc n)
             (reqs @ [GET ?url]) = Some y"
          by simp
        have now': "now + int (latency w n) + max 0 interval + int (lateness w n) = poll_time w interval (Suc n)"
          using now by simp
        from 1(1)[OF rec] st now'
        have "\<exists>m\<ge>Suc n. ?A (Suc n) m \<and> (?T (reqs @ [GET ?url]) (Suc n) m \<or> ?S (reqs @ [GET ?url]) (Suc n) m)"
          unfolding poll_post_def by blast
        then obtain m where m: "m \<ge> Suc n" "?A (Suc n) m"
          "?T (reqs @ [GET ?url]) (Suc n) m \<or> ?S (reqs @ [GET ?url]) (Suc n) m"
          by blast
        have all: "?A n m"
        proof (intro allI impI)
          fix j assume j: "n \<le> j \<and> j < m"
          show "nonterminal_at w taskId j \<and> poll_time w interval j - clock0 w < timeout"
          proof (cases "j = n")
            case True
            with \<open>nonterminal_at w taskId n\<close> lt st now show ?thesis by simp
          next
            case False
            with j have "Suc n \<le> j \<and> j < m" by simp
            with m(2) show ?thesis by blast
          qed
        qed
        have rep: "replicate (m - n) (GET ?url) = GET ?url # replicate (m - Suc n) (GET ?url)"
          using m(1) by (cases "m - n") (auto simp: Suc_diff_Suc)
        have sm: "Suc (m - n) = Suc (Suc (m - Suc n))" using m(1) by simp
        from m(3) have "?T reqs n m \<or> ?S reqs n m"
        proof
          assume "?T (reqs @ [GET ?url]) (Suc n) m"
          then have "?T reqs n m" using rep by simp
          then show ?thesis ..
        next
          assume "?S (reqs @ [GET ?url]) (Suc n) m"
          then have "?S reqs n m" unfolding sm by simp
          then show ?thesis ..
        qed
        with all m(1) show ?thesis by (intro exI[of _ m]) simp
      qed
    qed
  qed
qed

lemma pollLoop_terminates:
  assumes "0 < interval"
  shows "\<exists>y. pollLoop w taskId interval timeout startTime now n reqs = Some y"
proof (induction "nat (timeout - (now - startTime))" arbitrary: now n reqs rule: less_induct)
  case less
  show ?case
  proof (cases "now - startTime < timeout")
    case False
    then show ?thesis by (simp add: pollLoop_stop)
  next
    case True
    show ?thesis
    proof (cases "nonterminal_at w taskId n")
      case False
      from not_nonterminal_stop[OF False True] show ?thesis by blast
    next
      case nt: True
      from nonterminal_atD[OF nt] obtain t where
        t: "getTaskStatus (respond w n) taskId = Inr (Some t)" "\<not> is_terminal (t_status t)"
        by blast
      let ?now' = "now + int (latency w n) + max 0 interval + int (lateness w n)"
      have "nat (timeout - (?now' - startTime)) < nat (timeout - (now - startTime))"
        using True assms by simp
      from less[OF this] obtain y where
        "pollLoop w taskId interval timeout startTime ?now' (Suc n) (reqs @ [GET (''/tasks/'' @ taskId)]) = Some y"
        by blast
      with pollLoop_again[OF True t] show ?thesis by simp
    qed
  qed
qed

lemma pollTaskCompletion_char:
  assumes "0 < interval"
  shows "\<exists>r reqs m. pollLoop w taskId interval timeout (clock0 w) (clock0 w) 0 [] = Some (r, reqs)
     \<and> (\<forall>j<m. nonterminal_at w taskId j \<and> poll_time w interval j - clock0 w < timeout)
     \<and> ((r = Inl (Error ''Task polling timed out'') \<and> timeout \<le> poll_time w interval m - clock0 w
           \<and> reqs = replicate m (GET (''/tasks/'' @ taskId)))
        \<or> (\<not> nonterminal_at w taskId m \<and> poll_time w interval m - clock0 w < timeout
           \<and> r = stop_outcome (getTaskStatus (respond w m) taskId)
           \<and> reqs = replicate (Suc m) (GET (''/tasks/'' @ taskId))))"
proof -
  from pollLoop_terminates[OF assms] obtain y where
    y: "pollLoop w taskId interval timeout (clock0 w) (clock0 w) 0 [] = Some y" by blast
  obtain r reqs where yr: "y = (r, reqs)" by (cases y)
  have "poll_post w taskId interval timeout (clock0 w) (clock0 w) 0 [] (r, reqs)"
    using pollLoop_char_aux[OF y] yr by simp
  then obtain m where m: "\<forall>j. 0 \<le> j \<and> j < m \<longrightarrow> nonterminal_at w taskId j \<and> poll_time w interval j - clock0 w < timeout"
     "(r = Inl (Error ''Task polling timed out'') \<and> timeout \<le> poll_time w interval m - clock0 w
           \<and> reqs = [] @ replicate (m - 0) (GET (''/tasks/'' @ taskId)))
        \<or> (\<not> nonterminal_at w taskId m \<and> poll_time w interval m - clock0 w < timeout
           \<and> r = stop_outcome (getTaskStatus (respond w m) taskId)
           \<and> reqs = [] @ replicate (Suc (m - 0)) (GET (''/tasks/'' @ taskId)))"
    unfolding poll_post_def fst_conv snd_conv poll_time.simps by blast
  from m(1) have a: "\<forall>j<m. nonterminal_at w taskId j \<and> poll_time w interval j - clock0 w < timeout"
    by simp
  from m(2) have b: "(r = Inl (Error ''Task polling timed out'') \<and> timeout \<le> poll_time w interval m - clock0 w
           \<and> reqs = replicate m (GET (''/tasks/'' @ taskId)))
        \<or> (\<not> nonterminal_at w taskId m \<and> poll_time w interval m - clock0 w < timeout
           \<and> r = stop_outcome (getTaskStatus (respond w m) taskId)
           \<and> reqs = replicate (Suc m) (GET (''/tasks/'' @ taskId)))"
    by simp
  from y yr a b show ?thesis by blast
qed

lemma run_poll_char:
  "\<exists>m\<le>left. (\<forall>j<m. run_pending env taskId (retries + j))
     \<and> ((m = left \<and> run_poll env taskId retries left reqs
            = (Inl (Plain ''Task timed out after 60 seconds''),
               reqs @ replicate left (GET (''/run/task/'' @ taskId))))
        \<or> (m < left \<and> \<not> run_pending env taskId (retries + m)
           \<and> run_poll env taskId retries left reqs
            = (run_stop (task_poll env (retries + m) taskId),
               reqs @ replicate (Suc m) (GET (''/run/task/'' @ taskId)))))"
proof (induction left arbitrary: retries reqs)
  case 0
  show ?case by (rule exI[of _ 0]) simp
next
  case (Suc left)
  let ?g = "GET (''/run/task/'' @ taskId)"
  show ?case
  proof (cases "run_pending env taskId retries")
    case False
    then have "run_poll env taskId retries (Suc left) reqs
        = (run_stop (task_poll env retries taskId), reqs @ replicate (Suc 0) ?g)"
      by (auto simp: run_pending_def run_stop_def split: sum.splits option.splits)
    with False show ?thesis by (intro exI[of _ 0]) simp
  next
    case True
    then have step: "run_poll env taskId retries (Suc left) reqs
        = run_poll env taskId (Suc retries) left (reqs @ [?g])"
      by (auto simp: run_pending_def split: sum.splits option.splits)
    from Suc.IH[of "Suc retries" "reqs @ [?g]"] obtain m where
      m: "m \<le> left" "\<forall>j<m. run_pending env taskId (Suc retries + j)"
        "(m = left \<and> run_poll env taskId (Suc retries) left (reqs @ [?g])
            = (Inl (Plain ''Task timed out after 60 seconds''), (reqs @ [?g]) @ replicate left ?g))
        \<or> (m < left \<and> \<not> run_pending env taskId (Suc retries + m)
           \<and> run_poll env taskId (Suc retries) left (reqs @ [?g])
            = (run_stop (task_poll env (Suc retries + m) taskId), (reqs @ [?g]) @ replicate (Suc m) ?g))"
      by blast
    have all: "\<forall>j<Suc m. run_pending env taskId (retries + j)"
    proof (intro allI impI)
      fix j assume "j < Suc m"
      show "run_pending env taskId (retries + j)"
      proof (cases j)
        case 0
        with True show ?thesis by simp
      next
        case (Suc k)
        with \<open>j < Suc m\<close> have "k < m" by simp
        with m(2) have "run_pending env taskId (Suc retries + k)" by blast
        with Suc show ?thesis by simp
      qed
    qed
    have r1: "(reqs @ [?g]) @ replicate left ?g = reqs @ replicate (Suc left) ?g" by simp
    have r2: "(reqs @ [?g]) @ replicate (Suc m) ?g = reqs @ replicate (Suc (Suc m)) ?g" by simp
    have a2: "Suc retries + m = retries + Suc m" by simp
    from m(3) have "(Suc m = Suc left \<and> run_poll env taskId retries (Suc left) reqs
            = (Inl (Plain ''Task timed out after 60 seconds''), reqs @ replicate (Suc left) ?g))
        \<or> (Suc m < Suc left \<and> \<not> run_pending env taskId (retries + Suc m)
           \<and> run_poll env taskId retries (Suc left) reqs
            = (run_stop (task_poll env (retries + Suc m) taskId), reqs @ replicate (Suc (Suc m)) ?g))"
      unfolding step r1 r2 a2 by simp
    with m(1) all show ?thesis by (intro exI[of _ "Suc m"]) simp
  qed
qed



lemma runQuery_char:
  assumes "start env (run_body query module) = Inr (Some tid)" "tid \<noteq> []"
  shows "\<exists>m\<le>60. (\<forall>j<m. run_pending env tid j)
     \<and> ((m = 60 \<and> runQuery env query module
            = (Inl (Plain ''Task timed out after 60 seconds''),
               POST ''/run/async'' (run_body query module) # replicate 60 (GET (''/run/task/'' @ tid))))
        \<or> (m < 60 \<and> \<not> run_pending env tid m
           \<and> snd (runQuery env query module)
                = POST ''/run/async'' (run_body query module) # replicate (Suc m) (GET (''/run/task/'' @ tid))
           \<and> fst (runQuery env query module)
                = (case run_stop (task_poll env m tid) of
                     Inl e \<Rightarrow> Inl e
                   | Inr None \<Rightarrow> Inl (Plain null_read)
                   | Inr (Some res) \<Rightarrow> Inr (format_result res))))"
proof -
  let ?p = "POST ''/run/async'' (run_body query module)"
  let ?g = "GET (''/run/task/'' @ tid)"
  from run_poll_char[of 60 env tid 0 "[?p]"] obtain m where
    m: "m \<le> 60" "\<forall>j<m. run_pending env tid (0 + j)"
      "(m = 60 \<and> run_poll env tid 0 60 [?p]
            = (Inl (Plain ''Task timed out after 60 seconds''), [?p] @ replicate 60 ?g))
        \<or> (m < 60 \<and> \<not> run_pending env tid (0 + m)
           \<and> run_poll env tid 0 60 [?p] = (run_stop (task_poll env (0 + m) tid), [?p] @ replicate (Suc m) ?g))"
    by blast
  have rq: "runQuery env query module
      = (case run_poll env tid 0 60 [?p] of
           (Inl e, reqs) \<Rightarrow> (Inl e, reqs)
         | (Inr None, reqs) \<Rightarrow> (Inl (Plain null_read), reqs)
         | (Inr (Some res), reqs) \<Rightarrow> (Inr (format_result res), reqs))"
    using assms by (simp add: runQuery_def)
  from m(2) have a: "\<forall>j<m. run_pending env tid j" by simp
  from m(3) have "(m = 60 \<and> runQuery env query module
            = (Inl (Plain ''Task timed out after 60 seconds''), ?p # replicate 60 ?g))
        \<or> (m < 60 \<and> \<not> run_pending env tid m
           \<and> snd (runQuery env query module) = ?p # replicate (Suc m) ?g
           \<and> fst (runQuery env query module)
                = (case run_stop (task_poll env m tid) of
                     Inl e \<Rightarrow> Inl e
                   | Inr None \<Rightarrow> Inl (Plain null_read)
                   | Inr (Some res) \<Rightarrow> Inr (format_result res)))"
  proof
    assume "m = 60 \<and> run_poll env tid 0 60 [?p]
            = (Inl (Plain ''Task timed out after 60 seconds''), [?p] @ replicate 60 ?g)"
    then show ?thesis unfolding rq by simp
  next
    assume h: "m < 60 \<and> \<not> run_pending env tid (0 + m)
           \<and> run_poll env tid 0 60 [?p] = (run_stop (task_poll env (0 + m) tid), [?p] @ replicate (Suc m) ?g)"
    then have "run_poll env tid 0 60 [?p] = (run_stop (task_poll env m tid), ?p # replicate (Suc m) ?g)"
      by simp
    then have "snd (runQuery env query module) = ?p # replicate (Suc m) ?g"
      "fst (runQuery env query module)
                = (case run_stop (task_poll env m tid) of
                     Inl e \<Rightarrow> Inl e
                   | Inr None \<Rightarrow> Inl (Plain null_read)
                   | Inr (Some res) \<Rightarrow> Inr (format_result res))"
      unfolding rq by (simp_all split: sum.splits option.splits)
    with h show ?thesis by simp
  qed
  with m(1) a show ?thesis by blast
qed






text \<open>
  C9. \<open>TaskStatus\<close> has a sixth value \<open>NOT_FOUND\<close> outside the five lifecycle states, and the
  polling loop does not treat it as terminal: when every poll of an unknown id answers with
  a \<open>not_found\<close> snapshot, the loop polls again after every interval while the elapsed time
  is below the timeout and ends with the timeout error, never earlier.
\<close>

theorem not_found_polled_until_timeout:
  assumes "\<forall>j. \<exists>t. respond w j (''/tasks/'' @ taskId) = Inr (Some t) \<and> t_status t = NOT_FOUND"
    and "0 < (case interval of None \<Rightarrow> 1000 | Some i \<Rightarrow> i)"
  shows "NOT_FOUND \<notin> {PENDING, RUNNING, COMPLETED, FAILED, CANCELED} \<and> \<not> is_terminal NOT_FOUND
     \<and> (\<exists>m. pollTaskCompletion w taskId interval timeout
              = Some (Inl (Error ''Task polling timed out''), replicate m (GET (''/tasks/'' @ taskId)))
          \<and> (\<forall>j<m. poll_time w (case interval of None \<Rightarrow> 1000 | Some i \<Rightarrow> i) j - clock0 w
                < (case timeout of None \<Rightarrow> 300000 | Some t \<Rightarrow> t))
          \<and> (case timeout of None \<Rightarrow> 300000 | Some t \<Rightarrow> t)
                \<le> poll_time w (case interval of None \<Rightarrow> 1000 | Some i \<Rightarrow> i) m - clock0 w)"
proof -
  let ?iv = "case interval of None \<Rightarrow> 1000 | Some i \<Rightarrow> i"
  let ?to = "case timeout of None \<Rightarrow> 300000 | Some t \<Rightarrow> t"
  let ?url = "''/tasks/'' @ taskId"
  have nt: "nonterminal_at w taskId j" for j
  proof -
    from assms(1) obtain t where "respond w j ?url = Inr (Some t)" "t_status t = NOT_FOUND" by blast
    then show ?thesis by (simp add: nonterminal_at_def)
  qed
  from pollTaskCompletion_char[OF assms(2), of w taskId ?to]
  obtain r reqs m where h: "pollLoop w taskId ?iv ?to (clock0 w) (clock0 w) 0 [] = Some (r, reqs)"
     "\<forall>j<m. nonterminal_at w taskId j \<and> poll_time w ?iv j - clock0 w < ?to"
     "(r = Inl (Error ''Task polling timed out'') \<and> ?to \<le> poll_time w ?iv m - clock0 w
           \<and> reqs = replicate m (GET ?url))
        \<or> (\<not> nonterminal_at w taskId m \<and> poll_time w ?iv m - clock0 w < ?to
           \<and> r = stop_outcome (getTaskStatus (respond w m) taskId)
           \<and> reqs = replicate (Suc m) (GET ?url))"
    by blast
  from h(3) nt have t: "r = Inl (Error ''Task polling timed out'')" "?to \<le> poll_time w ?iv m - clock0 w"
     "reqs = replicate m (GET ?url)" by blast+
  have p: "pollTaskCompletion w taskId interval timeout
              = Some (Inl (Error ''Task polling timed out''), replicate m (GET ?url))"
    using h(1) t(1,3) by (simp add: pollTaskCompletion_def)
  have a: "\<forall>j<m. poll_time w ?iv j - clock0 w < ?to" using h(2) by simp
  have e: "\<exists>m. pollTaskCompletion w taskId interval timeout
              = Some (Inl (Error ''Task polling timed out''), replicate m (GET ?url))
          \<and> (\<forall>j<m. poll_time w ?iv j - clock0 w < ?to) \<and> ?to \<le> poll_time w ?iv m - clock0 w"
    using p a t(2) by (intro exI[of _ m] conjI)
  have "NOT_FOUND \<notin> {PENDING, RUNNING, COMPLETED, FAILED, CANCELED}" by simp
  moreover have "\<not> is_terminal NOT_FOUND" by (simp add: is_terminal_def)
  ultimately show ?thesis using e by (intro conjI)
qed

theorem not_found_polled_until_timeout_witness:
  "(\<forall>j. \<exists>t. respond unknown_id_world j (''/tasks/'' @ ''nope'') = Inr (Some t) \<and> t_status t = NOT_FOUND)
   \<and> 0 < (case Some (1000::int) of None \<Rightarrow> 1000 | Some i \<Rightarrow> i)
   \<and> pollTaskCompletion unknown_id_world ''nope'' (Some 1000) (Some 3000)
        = Some (Inl (Error ''Task polling timed out''),
                [GET ''/tasks/nope'', GET ''/tasks/nope'', GET ''/tasks/nope''])
   \<and> (\<exists>m. pollTaskCompletion unknown_id_world ''nope'' (Some 1000) (Some 3000)
              = Some (Inl (Error ''Task polling timed out''), replicate m (GET ''/tasks/nope'')))"
proof -
  have h1: "\<forall>j. \<exists>t. respond unknown_id_world j (''/tasks/'' @ ''nope'') = Inr (Some t) \<and> t_status t = NOT_FOUND"
    by (simp add: unknown_id_world_def snapshot_def)
  have h2: "0 < (case Some (1000::int) of None \<Rightarrow> 1000 | Some i \<Rightarrow> i)" by simp
  have v: "pollTaskCompletion unknown_id_world ''nope'' (Some 1000) (Some 3000)
        = Some (Inl (Error ''Task polling timed out''),
                [GET ''/tasks/nope'', GET ''/tasks/nope'', GET ''/tasks/nope''])"
    by (simp add: pollTaskCompletion_def pollLoop_stop pollLoop_again
        unknown_id_world_def getTaskStatus_def is_terminal_def snapshot_def)
  from not_found_polled_until_timeout [OF h1 h2, of "Some 3000"]
  have "\<exists>m. pollTaskCompletion unknown_id_world ''nope'' (Some 1000) (Some 3000)
              = Some (Inl (Error ''Task polling timed out''), replicate m (GET ''/tasks/nope''))"
    by (elim exE conjE) auto
  with h1 h2 v show ?thesis by blast
qed

subsection \<open>The browser session\<close>

lemma session_call_state:
  "fst (session_call server call fb cur) =
     (case server call of Inr (Body d) \<Rightarrow> after_response cur d | _ \<Rightarrow> cur)"
  by (simp add: session_call_def split: sum.splits body.splits)

lemma session_call_reqs: "snd (snd (session_call server call fb cur)) = [call]"
  by (simp add: session_call_def split: sum.splits body.splits)

lemma navigate_sends_stored: "map sent_session_id (calls_of (navigate server \<lparr>nav_url = u, nav_session_id = None\<rparr> cur)) = [Some cur]"
  by (simp add: calls_of_def navigate_def session_call_reqs sent_session_id_def getSessionId_def)
lemma extract_sends_stored: "map sent_session_id (calls_of (browser_extract server \<lparr>ext_url = u, ext_selector = sel, ext_session_id = None\<rparr> cur)) = [Some cur]"
  by (simp add: calls_of_def browser_extract_def session_call_reqs sent_session_id_def getSessionId_def split: option.splits)
lemma performAction_sends_stored: "map sent_session_id (calls_of (performAction server \<lparr>act_url = u, act_task = t, act_session_id = None\<rparr> cur)) = [Some cur]"
  by (simp add: calls_of_def performAction_def session_call_reqs sent_session_id_def getSessionId_def)
lemma amazonSearch_sends_none: "map sent_session_id (calls_of (amazonSearch server k cur)) = [None]"
  by (simp add: calls_of_def amazonSearch_def session_call_reqs sent_session_id_def)

lemma session_call_sticky:
  "\<exists>c. snd (snd (session_call server call fb cur)) = [c]
           \<and> fst (session_call server call fb cur) = (case server c of
                        Inr (Body d) \<Rightarrow> (case d_session_id d of None \<Rightarrow> cur
                                         | Some s \<Rightarrow> if s = [] then cur else Some s)
                      | _ \<Rightarrow> cur)"
  by (rule exI[of _ call])
     (simp add: session_call_def after_response_def setSessionId_def split: sum.splits body.splits option.splits)

lemma closeSession_keeps_or_resets: "fst (closeSession server sid cur) = cur \<or> fst (closeSession server sid cur) = None"
  by (simp add: closeSession_def Let_def split: option.splits sum.splits body.splits)

lemma closeSession_reset_only:
  assumes "fst (closeSession server sid cur) \<noteq> cur"
  shows "\<exists>c d. snd (snd (closeSession server sid cur))
                  = [\<lparr>b_path = ''/browser/sessions/close'', b_fields = [(''session_id'', Some c)]\<rparr>]
            \<and> server \<lparr>b_path = ''/browser/sessions/close'', b_fields = [(''session_id'', Some c)]\<rparr> = Inr (Body d)
            \<and> d_success d \<and> cur = Some c"
proof (cases "getSessionId cur sid")
  case None
  with assms show ?thesis by (simp add: closeSession_def)
next
  case (Some c)
  let ?call = "\<lparr>b_path = ''/browser/sessions/close'', b_fields = [(''session_id'', Some c)]\<rparr>"
  from assms Some have ne: "c \<noteq> []" by (auto simp: closeSession_def)
  show ?thesis
  proof (cases "server ?call")
    case (Inl msg)
    with assms Some ne show ?thesis by (simp add: closeSession_def)
  next
    case (Inr b)
    show ?thesis
    proof (cases b)
      case NullBody
      with assms Some ne Inr show ?thesis by (simp add: closeSession_def)
    next
      case (Body d)
      with assms Some ne Inr have "d_success d \<and> Some c = cur"
        by (simp add: closeSession_def split: if_splits)
      moreover have "snd (snd (closeSession server sid cur)) = [?call]"
        using Some ne Inr Body by (simp add: closeSession_def)
      ultimately show ?thesis using Inr Body by (intro exI[of _ c] exI[of _ d]) simp
    qed
  qed
qed

lemma closeSession_resets: "cur = Some c \<Longrightarrow> c \<noteq> [] \<Longrightarrow> getSessionId cur sid = Some c
          \<Longrightarrow> server \<lparr>b_path = ''/browser/sessions/close'', b_fields = [(''session_id'', Some c)]\<rparr> = Inr (Body d)
          \<Longrightarrow> d_success d \<Longrightarrow> fst (closeSession server sid cur) = None"
  by (simp add: closeSession_def Let_def)

text \<open>
  C10 (amended). \<open>navigate\<close>, \<open>extract\<close> and \<open>performAction\<close> called without a session id send
  the stored \<open>currentSessionId\<close>; \<open>amazonSearch\<close> sends no session id. After each of the four,
  the stored id is the non-empty \<open>session_id\<close> of the response when there is one, and is
  unchanged otherwise. \<open>closeSession\<close> leaves the stored id as it is or resets it to null,
  and it resets it only when the close call answered with success and the closed id is the
  stored one; in that case it does reset it.
\<close>

theorem browser_sticky_session:
  "map sent_session_id (calls_of (navigate server \<lparr>nav_url = u, nav_session_id = None\<rparr> cur)) = [Some cur]
   \<and> map sent_session_id (calls_of (browser_extract server
          \<lparr>ext_url = u, ext_selector = sel, ext_session_id = None\<rparr> cur)) = [Some cur]
   \<and> map sent_session_id (calls_of (performAction server
          \<lparr>act_url = u, act_task = t, act_session_id = None\<rparr> cur)) = [Some cur]
   \<and> map sent_session_id (calls_of (amazonSearch server k cur)) = [None]
   \<and> (\<forall>r \<in> {navigate server np cur, browser_extract server ep cur, performAction server ap cur,
                amazonSearch server k cur}.
         \<exists>c. calls_of r = [c]
           \<and> new_session r = (case server c of
                        Inr (Body d) \<Rightarrow> (case d_session_id d of None \<Rightarrow> cur
                                         | Some s \<Rightarrow> if s = [] then cur else Some s)
                      | _ \<Rightarrow> cur))
   \<and> (new_session (closeSession server sid cur) = cur \<or> new_session (closeSession server sid cur) = None)
   \<and> (new_session (closeSession server sid cur) \<noteq> cur \<longrightarrow>
         (\<exists>c d. calls_of (closeSession server sid cur)
                  = [\<lparr>b_path = ''/browser/sessions/close'', b_fields = [(''session_id'', Some c)]\<rparr>]
            \<and> server \<lparr>b_path = ''/browser/sessions/close'', b_fields = [(''session_id'', Some c)]\<rparr> = Inr (Body d)
            \<and> d_success d \<and> cur = Some c))
   \<and> (\<forall>c d. cur = Some c \<and> c \<noteq> [] \<and> getSessionId cur sid = Some c
          \<and> server \<lparr>b_path = ''/browser/sessions/close'', b_fields = [(''session_id'', Some c)]\<rparr> = Inr (Body d)
          \<and> d_success d \<longrightarrow> new_session (closeSession server sid cur) = None)"
proof (intro conjI)
  show "\<forall>r \<in> {navigate server np cur, browser_extract server ep cur, performAction server ap cur,
                amazonSearch server k cur}.
         \<exists>c. calls_of r = [c]
           \<and> new_session r = (case server c of
                        Inr (Body d) \<Rightarrow> (case d_session_id d of None \<Rightarrow> cur
                                         | Some s \<Rightarrow> if s = [] then cur else Some s)
                      | _ \<Rightarrow> cur)"
    unfolding navigate_def browser_extract_def performAction_def amazonSearch_def Let_def
      calls_of_def new_session_def
    using session_call_sticky by simp
  show "new_session (closeSession server sid cur) \<noteq> cur \<longrightarrow>
         (\<exists>c d. calls_of (closeSession server sid cur)
                  = [\<lparr>b_path = ''/browser/sessions/close'', b_fields = [(''session_id'', Some c)]\<rparr>]
            \<and> server \<lparr>b_path = ''/browser/sessions/close'', b_fields = [(''session_id'', Some c)]\<rparr> = Inr (Body d)
            \<and> d_success d \<and> cur = Some c)"
    unfolding calls_of_def new_session_def using closeSession_reset_only by blast
  show "\<forall>c d. cur = Some c \<and> c \<noteq> [] \<and> getSessionId cur sid = Some c
          \<and> server \<lparr>b_path = ''/browser/sessions/close'', b_fields = [(''session_id'', Some c)]\<rparr> = Inr (Body d)
          \<and> d_success d \<longrightarrow> new_session (closeSession server sid cur) = None"
  proof (intro allI impI, elim conjE)
    fix c d
    assume "cur = Some c" "c \<noteq> []" "getSessionId cur sid = Some c"
      "server \<lparr>b_path = ''/browser/sessions/close'', b_fields = [(''session_id'', Some c)]\<rparr> = Inr (Body d)"
      "d_success d"
    then show "new_session (closeSession server sid cur) = None"
      unfolding new_session_def by (rule closeSession_resets)
  qed
qed (simp_all add: navigate_sends_stored extract_sends_stored performAction_sends_stored
       amazonSearch_sends_none closeSession_keeps_or_resets new_session_def)

theorem browser_sticky_session_witness:
  "map sent_session_id (calls_of (navigate ok_server
          \<lparr>nav_url = ''http://a.test'', nav_session_id = None\<rparr> (Some ''s1''))) = [Some (Some ''s1'')]
   \<and> new_session (navigate ok_server \<lparr>nav_url = ''http://a.test'', nav_session_id = None\<rparr> (Some ''s1''))
      = Some ''s2''
   \<and> new_session (amazonSearch refusing_server ''kbd'' (Some ''s1'')) = Some ''s1''
   \<and> new_session (closeSession ok_server None (Some ''s1'')) = None
   \<and> calls_of (closeSession ok_server None (Some ''s1''))
        = [\<lparr>b_path = ''/browser/sessions/close'', b_fields = [(''session_id'', Some ''s1'')]\<rparr>]
   \<and> new_session (closeSession refusing_server None (Some ''s1'')) = Some ''s1''
   \<and> new_session (closeSession ok_server (Some ''other'') (Some ''s1'')) = Some ''s1''"
proof -
  let ?np = "\<lparr>nav_url = ''http://a.test'', nav_session_id = None\<rparr>"
  let ?ep = "\<lparr>ext_url = ''http://a.test'', ext_selector = None, ext_session_id = None\<rparr>"
  let ?ap = "\<lparr>act_url = ''http://a.test'', act_task = ''task'', act_session_id = None\<rparr>"
  let ?close = "\<lparr>b_path = ''/browser/sessions/close'', b_fields = [(''session_id'', Some ''s1'')]\<rparr>"
  note t = browser_sticky_session [of ok_server "''http://a.test''" "Some ''s1''" None "''task''"
      "''kbd''" ?np ?ep ?ap None]
  note u = browser_sticky_session [of refusing_server "''http://a.test''" "Some ''s1''" None "''task''"
      "''kbd''" ?np ?ep ?ap None]
  have a: "map sent_session_id (calls_of (navigate ok_server ?np (Some ''s1''))) = [Some (Some ''s1'')]"
    using t by (rule conjunct1)
  from t have "\<forall>r \<in> {navigate ok_server ?np (Some ''s1''), browser_extract ok_server ?ep (Some ''s1''),
        performAction ok_server ?ap (Some ''s1''), amazonSearch ok_server ''kbd'' (Some ''s1'')}.
         \<exists>c. calls_of r = [c]
           \<and> new_session r = (case ok_server c of
                        Inr (Body d) \<Rightarrow> (case d_session_id d of None \<Rightarrow> Some ''s1''
                                         | Some s \<Rightarrow> if s = [] then Some ''s1'' else Some s)
                      | _ \<Rightarrow> Some ''s1'')"
    by (elim conjE)
  then have "\<exists>c. calls_of (navigate ok_server ?np (Some ''s1'')) = [c]
           \<and> new_session (navigate ok_server ?np (Some ''s1'')) = (case ok_server c of
                        Inr (Body d) \<Rightarrow> (case d_session_id d of None \<Rightarrow> Some ''s1''
                                         | Some s \<Rightarrow> if s = [] then Some ''s1'' else Some s)
                      | _ \<Rightarrow> Some ''s1'')"
    by blast
  then have b: "new_session (navigate ok_server ?np (Some ''s1'')) = Some ''s2''"
    by (auto simp: ok_server_def)
  from u have "\<forall>r \<in> {navigate refusing_server ?np (Some ''s1''), browser_extract refusing_server ?ep (Some ''s1''),
        performAction refusing_server ?ap (Some ''s1''), amazonSearch refusing_server ''kbd'' (Some ''s1'')}.
         \<exists>c. calls_of r = [c]
           \<and> new_session r = (case refusing_server c of
                        Inr (Body d) \<Rightarrow> (case d_session_id d of None \<Rightarrow> Some ''s1''
                                         | Some s \<Rightarrow> if s = [] then Some ''s1'' else Some s)
                      | _ \<Rightarrow> Some ''s1'')"
    by (elim conjE)
  then have "\<exists>c. calls_of (amazonSearch refusing_server ''kbd'' (Some ''s1'')) = [c]
           \<and> new_session (amazonSearch refusing_server ''kbd'' (Some ''s1'')) = (case refusing_server c of
                        Inr (Body d) \<Rightarrow> (case d_session_id d of None \<Rightarrow> Some ''s1''
                                         | Some s \<Rightarrow> if s = [] then Some ''s1'' else Some s)
                      | _ \<Rightarrow> Some ''s1'')"
    by blast
  then have b': "new_session (amazonSearch refusing_server ''kbd'' (Some ''s1'')) = Some ''s1''"
    by (auto simp: refusing_server_def)
  from t have all: "\<forall>c d. Some ''s1'' = Some c \<and> c \<noteq> [] \<and> getSessionId (Some ''s1'') None = Some c
          \<and> ok_server \<lparr>b_path = ''/browser/sessions/close'', b_fields = [(''session_id'', Some c)]\<rparr> = Inr (Body d)
          \<and> d_success d \<longrightarrow> new_session (closeSession ok_server None (Some ''s1'')) = None"
    by (elim conjE)
  have "Some ''s1'' = Some ''s1'' \<and> ''s1'' \<noteq> [] \<and> getSessionId (Some ''s1'') None = Some ''s1''
          \<and> ok_server ?close = Inr (Body \<lparr>d_status = None, d_error = None,
                d_session_id = Some ''s2'', d_success = True\<rparr>)
          \<and> d_success \<lparr>d_status = None, d_error = None, d_session_id = Some ''s2'', d_success = True\<rparr>"
    by (simp add: getSessionId_def ok_server_def)
  with all have c: "new_session (closeSession ok_server None (Some ''s1'')) = None"
    by blast
  from t have imp: "new_session (closeSession ok_server None (Some ''s1'')) \<noteq> Some ''s1'' \<longrightarrow>
         (\<exists>c d. calls_of (closeSession ok_server None (Some ''s1''))
                  = [\<lparr>b_path = ''/browser/sessions/close'', b_fields = [(''session_id'', Some c)]\<rparr>]
            \<and> ok_server \<lparr>b_path = ''/browser/sessions/close'', b_fields = [(''session_id'', Some c)]\<rparr> = Inr (Body d)
            \<and> d_success d \<and> Some ''s1'' = Some c)"
    by (elim conjE)
  with c have d: "calls_of (closeSession ok_server None (Some ''s1'')) = [?close]"
    by auto
  from u have "new_session (closeSession refusing_server None (Some ''s1'')) \<noteq> Some ''s1'' \<longrightarrow>
         (\<exists>c d. refusing_server \<lparr>b_path = ''/browser/sessions/close'', b_fields = [(''session_id'', Some c)]\<rparr> = Inr (Body d)
            \<and> d_success d)"
    by blast
  then have e: "new_session (closeSession refusing_server None (Some ''s1'')) = Some ''s1''"
    by (auto simp: refusing_server_def)
  note v = browser_sticky_session [of ok_server "''http://a.test''" "Some ''s1''" None "''task''"
      "''kbd''" ?np ?ep ?ap "Some ''other''"]
  from v have "new_session (closeSession ok_server (Some ''other'') (Some ''s1'')) \<noteq> Some ''s1'' \<longrightarrow>
         (\<exists>c. calls_of (closeSession ok_server (Some ''other'') (Some ''s1''))
                  = [\<lparr>b_path = ''/browser/sessions/close'', b_fields = [(''session_id'', Some c)]\<rparr>]
            \<and> Some ''s1'' = Some c)"
    by blast
  moreover have "calls_of (closeSession ok_server (Some ''other'') (Some ''s1''))
      = [\<lparr>b_path = ''/browser/sessions/close'', b_fields = [(''session_id'', Some ''other'')]\<rparr>]"
    by (simp add: calls_of_def closeSession_def getSessionId_def ok_server_def)
  ultimately have f: "new_session (closeSession ok_server (Some ''other'') (Some ''s1'')) = Some ''s1''"
    by auto
  from a b b' c d e f show ?thesis by (intro conjI)
qed

text \<open>
  C10 as stated fails for \<open>amazonSearch\<close>: with the session \<open>s1\<close> stored it sends a call
  that carries no session id.
\<close>

theorem amazonSearch_ignores_session_counterexample:
  "map sent_session_id (calls_of (amazonSearch ok_server ''keyboard'' (Some ''s1''))) = [None]
   \<and> map sent_session_id (calls_of (amazonSearch ok_server ''keyboard'' (Some ''s1'')))
        \<noteq> [Some (Some ''s1'')]"
  by (simp add: calls_of_def amazonSearch_def session_call_def ok_server_def sent_session_id_def)

subsection \<open>Wire shapes\<close>

lemma wire_shape_query: "wire_shape (query_msg q m)"
  by (simp add: wire_shape_def query_shape_def has_fields_def query_msg_def)

lemma wire_shape_ping: "wire_shape (ping_msg now)"
  by (simp add: wire_shape_def ping_shape_def has_fields_def ping_msg_def)

lemma wire_shape_cancel: "wire_shape (cancel_msg t)"
  by (simp add: wire_shape_def cancel_shape_def has_fields_def cancel_msg_def)

lemma ws_step_sent:
  "sent (fst (ws_step e c)) = sent c \<or> (\<exists>now. sent (fst (ws_step e c)) = sent c @ [ping_msg now])"
  by (cases e)
     (auto simp add: on_open_def on_error_def on_close_def on_message_def on_timeout_def
        ws_send_def ws_close_def split: option.splits)

lemma ws_use_step_shape:
  assumes "\<forall>m \<in> set (sent c). wire_shape m"
  shows "\<forall>m \<in> set (sent (ws_use_step u c)). wire_shape m"
proof (cases u)
  case (Event e)
  with ws_step_sent[of e c] assms show ?thesis by (auto simp: wire_shape_ping)
next
  case (Query q m)
  with assms show ?thesis
    by (auto simp: sendWebSocketQuery_def ws_send_def wire_shape_query)
next
  case (Ping now)
  with assms show ?thesis
    by (auto simp: sendWebSocketPing_def ws_send_def wire_shape_ping)
next
  case (Cancel t)
  with assms show ?thesis
    by (auto simp: cancelWebSocketTask_def ws_send_def wire_shape_cancel)
next
  case (Throws b)
  with assms show ?thesis by simp
qed

lemma fold_ws_use_step_shape:
  "(\<forall>m \<in> set (sent c). wire_shape m) \<Longrightarrow> \<forall>m \<in> set (sent (fold ws_use_step us c)). wire_shape m"
proof (induction us arbitrary: c)
  case Nil
  then show ?case by simp
next
  case (Cons u us)
  from ws_use_step_shape[OF Cons.prems] have "\<forall>m \<in> set (sent (ws_use_step u c)). wire_shape m" .
  from Cons.IH[OF this] show ?case by simp
qed

text \<open>
  C7. Every payload the client hands to the socket has one of the three shapes
  \<open>{type:"query", query, module}\<close>, \<open>{type:"cancel", task_id}\<close>, \<open>{type:"ping", time}\<close>, with
  exactly those fields, whatever the client does with the socket and in whatever order.
\<close>

theorem client_messages_have_wire_shape:
  "\<forall>m \<in> set (sent (fold ws_use_step us new_socket)). wire_shape m"
  by (rule fold_ws_use_step_shape) (simp add: new_socket_def)

theorem client_messages_have_wire_shape_witness:
  "sent (fold ws_use_step [Event (Opened 17), Query ''2+2'' None, Cancel ''t9'',
       Event (Closed 1006), Ping 40, Event (Opened 50), Ping 60] new_socket)
     = [ping_msg 17, query_msg ''2+2'' ''run'', cancel_msg ''t9'', ping_msg 50, ping_msg 60]
   \<and> list_all wire_shape (sent (fold ws_use_step [Event (Opened 17), Query ''2+2'' None,
       Cancel ''t9'', Event (Closed 1006), Ping 40, Event (Opened 50), Ping 60] new_socket))"
proof -
  have v: "sent (fold ws_use_step [Event (Opened 17), Query ''2+2'' None, Cancel ''t9'',
       Event (Closed 1006), Ping 40, Event (Opened 50), Ping 60] new_socket)
     = [ping_msg 17, query_msg ''2+2'' ''run'', cancel_msg ''t9'', ping_msg 50, ping_msg 60]"
    by (simp add: new_socket_def on_open_def on_close_def ws_send_def sendWebSocketQuery_def
      sendWebSocketPing_def cancelWebSocketTask_def)
  have s: "list_all wire_shape (sent (fold ws_use_step [Event (Opened 17), Query ''2+2'' None,
       Cancel ''t9'', Event (Closed 1006), Ping 40, Event (Opened 50), Ping 60] new_socket))"
    unfolding list_all_iff
    by (rule client_messages_have_wire_shape [of "[Event (Opened 17), Query ''2+2'' None,
       Cancel ''t9'', Event (Closed 1006), Ping 40, Event (Opened 50), Ping 60]"])
  from v s show ?thesis by (intro conjI)
qed

subsection \<open>Connection errors\<close>

lemma ws_step_hasConnected:
  "hasConnected (fst (ws_step e c)) = (hasConnected c \<or> is_opened e)"
  by (cases e)
     (simp_all add: on_open_def on_error_def on_close_def on_message_def on_timeout_def
        ws_send_def ws_close_def split: option.splits)

lemma ws_run_hasConnected:
  "hasConnected (fst (ws_run evs c)) = (hasConnected c \<or> (\<exists>e \<in> set evs. is_opened e))"
proof (induction evs arbitrary: c)
  case Nil
  then show ?case by simp
next
  case (Cons e es)
  obtain c1 out1 where s: "ws_step e c = (c1, out1)" by (cases "ws_step e c")
  obtain c2 out2 where r: "ws_run es c1 = (c2, out2)" by (cases "ws_run es c1")
  have "hasConnected c1 = (hasConnected c \<or> is_opened e)"
    using ws_step_hasConnected[of e c] s by simp
  moreover have "hasConnected c2 = (hasConnected c1 \<or> (\<exists>e \<in> set es. is_opened e))"
    using Cons.IH[of c1] r by simp
  ultimately show ?case using s r by auto
qed

lemma ws_step_quiet:
  assumes "\<not> hasConnected c" "\<not> is_opened e" "\<not> is_received e"
  shows "\<not> hasConnected (fst (ws_step e c))
     \<and> (snd (ws_step e c) = [] \<and> (\<not> timerPending c \<longrightarrow> \<not> timerPending (fst (ws_step e c)))
        \<or> timerPending c \<and> snd (ws_step e c) = [timeout_notice] \<and> \<not> timerPending (fst (ws_step e c)))"
  using assms
  by (cases e) (auto simp add: on_error_def on_close_def on_timeout_def ws_close_def)

lemma ws_run_quiet:
  assumes "\<not> hasConnected c" "\<forall>e \<in> set evs. \<not> is_opened e \<and> \<not> is_received e"
  shows "snd (ws_run evs c) = [] \<or> timerPending c \<and> snd (ws_run evs c) = [timeout_notice]"
  using assms
proof (induction evs arbitrary: c)
  case Nil
  then show ?case by simp
next
  case (Cons e es)
  obtain c1 out1 where s: "ws_step e c = (c1, out1)" by (cases "ws_step e c")
  obtain c2 out2 where r: "ws_run es c1 = (c2, out2)" by (cases "ws_run es c1")
  from Cons.prems have e: "\<not> is_opened e" "\<not> is_received e" by simp_all
  from ws_step_quiet[OF Cons.prems(1) e] s
  have q: "\<not> hasConnected c1"
    "out1 = [] \<and> (\<not> timerPending c \<longrightarrow> \<not> timerPending c1)
       \<or> timerPending c \<and> out1 = [timeout_notice] \<and> \<not> timerPending c1" by simp_all
  from Cons.prems have "\<forall>e \<in> set es. \<not> is_opened e \<and> \<not> is_received e" by simp
  from Cons.IH[OF q(1) this] r
  have ih: "out2 = [] \<or> timerPending c1 \<and> out2 = [timeout_notice]" by simp
  from q(2) ih have "out1 @ out2 = [] \<or> timerPending c \<and> out1 @ out2 = [timeout_notice]"
    by auto
  then show ?case using s r by simp
qed

text \<open>
  C2 (amended). An error event or a close event before the first successful open is never
  surfaced; once the socket has opened (\<open>hasConnected\<close> is set exactly by the first open),
  every error event and every close with a code other than 1000 is surfaced, and a close
  with code 1000 is not. A run in which the socket never opens can still deliver one error
  notification: the connection timer reports a connection that is not open when it fires,
  and a socket that cannot be constructed is reported at once. Nothing else is delivered
  in such a run.
\<close>

theorem errors_surface_only_after_first_open:
  "(\<not> hasConnected c \<longrightarrow> snd (ws_step Errored c) = [] \<and> snd (ws_step (Closed code) c) = [])
   \<and> (hasConnected c \<longrightarrow> snd (ws_step Errored c) = [error_notice]
         \<and> snd (ws_step (Closed code) c) = (if code \<noteq> 1000 then [closed_notice code] else []))
   \<and> hasConnected (fst (ws_run evs new_socket)) = (\<exists>e \<in> set evs. is_opened e)
   \<and> ((\<forall>e \<in> set evs. \<not> is_opened e \<and> \<not> is_received e) \<longrightarrow>
         snd (ws_run evs new_socket) = [] \<or> snd (ws_run evs new_socket) = [timeout_notice])
   \<and> (timerPending c \<and> readyState c \<noteq> OPEN \<longrightarrow> snd (ws_step TimerFired c) = [timeout_notice])
   \<and> connectWebSocket False = (None, [establish_failed_notice])"
proof (intro conjI)
  show "hasConnected (fst (ws_run evs new_socket)) = (\<exists>e \<in> set evs. is_opened e)"
    using ws_run_hasConnected[of evs new_socket] by (simp add: new_socket_def)
  show "(\<forall>e \<in> set evs. \<not> is_opened e \<and> \<not> is_received e) \<longrightarrow>
         snd (ws_run evs new_socket) = [] \<or> snd (ws_run evs new_socket) = [timeout_notice]"
  proof
    assume a: "\<forall>e \<in> set evs. \<not> is_opened e \<and> \<not> is_received e"
    have "\<not> hasConnected new_socket" by (simp add: new_socket_def)
    from ws_run_quiet[OF this a] show "snd (ws_run evs new_socket) = [] \<or> snd (ws_run evs new_socket) = [timeout_notice]"
      by blast
  qed
qed (simp_all add: on_error_def on_close_def on_timeout_def connectWebSocket_def)

theorem errors_surface_only_after_first_open_witness:
  "\<not> hasConnected new_socket
   \<and> snd (ws_step Errored new_socket) = [] \<and> snd (ws_step (Closed 1006) new_socket) = []
   \<and> hasConnected open_socket
   \<and> snd (ws_step Errored open_socket) = [error_notice]
   \<and> snd (ws_step (Closed 1006) open_socket) = [closed_notice 1006]
   \<and> snd (ws_step (Closed 1000) open_socket) = []
   \<and> hasConnected (fst (ws_run [Opened 5, Errored, Closed 1006] new_socket))
   \<and> snd (ws_run [Opened 5, Errored, Closed 1006] new_socket)
        = [connected_notice, error_notice, closed_notice 1006]
   \<and> list_all (\<lambda>e. \<not> is_opened e \<and> \<not> is_received e) [Errored, Closed 1006]
   \<and> snd (ws_run [Errored, Closed 1006] new_socket) = []
   \<and> timerPending new_socket \<and> readyState new_socket \<noteq> OPEN
   \<and> snd (ws_step TimerFired new_socket) = [timeout_notice]"
proof -
  note t = errors_surface_only_after_first_open [of new_socket 1006 "[Errored, Closed 1006]"]
  note u = errors_surface_only_after_first_open [of open_socket 1006 "[Opened 5, Errored, Closed 1006]"]
  note v = errors_surface_only_after_first_open [of open_socket 1000 "[]"]
  have h1: "\<not> hasConnected new_socket" by (simp add: new_socket_def)
  have h2: "hasConnected open_socket" by (simp add: open_socket_def)
  have h3: "\<exists>e \<in> set [Opened 5, Errored, Closed 1006]. is_opened e" by simp
  have h4: "\<forall>e \<in> set [Errored, Closed 1006]. \<not> is_opened e \<and> \<not> is_received e" by simp
  have h5: "timerPending new_socket \<and> readyState new_socket \<noteq> OPEN" by (simp add: new_socket_def)
  from t h1 have a: "snd (ws_step Errored new_socket) = [] \<and> snd (ws_step (Closed 1006) new_socket) = []"
    by blast
  from u h2 have b: "snd (ws_step Errored open_socket) = [error_notice]
      \<and> snd (ws_step (Closed 1006) open_socket) = (if (1006::nat) \<noteq> 1000 then [closed_notice 1006] else [])"
    by blast
  from v h2 have b0: "snd (ws_step (Closed 1000) open_socket)
      = (if (1000::nat) \<noteq> 1000 then [closed_notice 1000] else [])"
    by blast
  from u h3 have c: "hasConnected (fst (ws_run [Opened 5, Errored, Closed 1006] new_socket))"
    by blast
  have c': "snd (ws_run [Opened 5, Errored, Closed 1006] new_socket)
        = [connected_notice, error_notice, closed_notice 1006]"
    by (simp add: new_socket_def on_open_def on_error_def on_close_def ws_send_def)
  from t h4 have "snd (ws_run [Errored, Closed 1006] new_socket) = []
      \<or> snd (ws_run [Errored, Closed 1006] new_socket) = [timeout_notice]"
    by blast
  moreover have "snd (ws_run [Errored, Closed 1006] new_socket) \<noteq> [timeout_notice]"
    by (simp add: new_socket_def on_error_def on_close_def)
  ultimately have d: "snd (ws_run [Errored, Closed 1006] new_socket) = []" by blast
  from t h5 have e: "snd (ws_step TimerFired new_socket) = [timeout_notice]" by blast
  have l: "list_all (\<lambda>e. \<not> is_opened e \<and> \<not> is_received e) [Errored, Closed 1006]" by simp
  from h1 a h2 b b0 c c' l d h5 e show ?thesis by simp
qed

text \<open>
  C2 as stated fails where the socket stays in \<open>CONNECTING\<close> until the timer fires: the
  socket has never opened, and an error notification is delivered.
\<close>

theorem timeout_notice_before_open_counterexample:
  "snd (ws_run [TimerFired] new_socket) = [timeout_notice]
   \<and> r_type timeout_notice = ''error''
   \<and> \<not> hasConnected (fst (ws_run [TimerFired] new_socket))"
  by (simp add: new_socket_def on_timeout_def ws_close_def timeout_notice_def notice_def)

subsection \<open>The message list\<close>

lemma includes_prefix: "str_includes (sub @ rest) sub"
  by (simp add: str_includes_def prefix_imp_sublist)

lemma transport_error_texts:
  "n \<in> set (transport_errors code) \<Longrightarrow>
   r_type n = ''error'' \<and> (\<exists>text. r_message n = Some text \<and> text \<noteq> [] \<and> str_includes text ''WebSocket'')"
  unfolding transport_errors_def
  by (auto simp add: timeout_notice_def error_notice_def
      closed_notice_def establish_failed_notice_def notice_def str_includes_def sublist_code)

text \<open>
  C3. On the system message that announces the connection, the panel only filters its
  message list: every bubble that shows a transport error (an error notification of
  \<open>connectWebSocket\<close>, as the panel displays it) is gone afterwards, no message whose role is
  not \<open>error\<close> is removed or changed, and nothing is added or reordered.
\<close>

theorem connected_clears_transport_errors:
  "handleWebSocketMessage seen ts connected_notice p = p\<lparr>messages := clear_connection_errors (messages p)\<rparr>
   \<and> (\<forall>n \<in> set (transport_errors code).
         messages (handleWebSocketMessage seen ts' n q)
           = without_loading (messages q) @ [bubble ''error'' (or_text (r_message n) ''An unexpected error occurred'') ts']
         \<and> bubble ''error'' (or_text (r_message n) ''An unexpected error occurred'') ts' \<notin> set (clear_connection_errors prev))
   \<and> filter (\<lambda>m. role m \<noteq> ''error'') (clear_connection_errors prev) = filter (\<lambda>m. role m \<noteq> ''error'') prev
   \<and> subseq (clear_connection_errors prev) prev"
proof (intro conjI ballI)
  show "handleWebSocketMessage seen ts connected_notice p = p\<lparr>messages := clear_connection_errors (messages p)\<rparr>"
    by (simp add: handleWebSocketMessage_def connected_notice_def notice_def)
next
  fix n assume n: "n \<in> set (transport_errors code)"
  from transport_error_texts[OF n] obtain msg where
    t: "r_type n = ''error''" "r_message n = Some msg" "msg \<noteq> []" "str_includes msg ''WebSocket''"
    by blast
  show "messages (handleWebSocketMessage seen ts' n q)
           = without_loading (messages q) @ [bubble ''error'' (or_text (r_message n) ''An unexpected error occurred'') ts']"
    using t by (simp add: handleWebSocketMessage_def or_text_def)
  show "bubble ''error'' (or_text (r_message n) ''An unexpected error occurred'') ts' \<notin> set (clear_connection_errors prev)"
    using t by (simp add: clear_connection_errors_def bubble_def or_text_def)
next
  show "filter (\<lambda>m. role m \<noteq> ''error'') (clear_connection_errors prev) = filter (\<lambda>m. role m \<noteq> ''error'') prev"
    unfolding clear_connection_errors_def by (induction prev) auto
next
  show "subseq (clear_connection_errors prev) prev"
    unfolding clear_connection_errors_def by simp
qed

theorem connected_clears_transport_errors_witness:
  "clear_connection_errors stale_error_view
     = [bubble ''assistant'' ''How can I help you today?'' ''10:00'',
        bubble ''user'' ''hi'' ''10:02'', bubble ''loading'' ''Thinking...'' ''10:02'']
   \<and> error_notice \<in> set (transport_errors 1006)
   \<and> bubble ''error'' (or_text (r_message error_notice) ''An unexpected error occurred'') ''10:01''
        \<notin> set (clear_connection_errors stale_error_view)"
proof -
  have a: "clear_connection_errors stale_error_view
     = [bubble ''assistant'' ''How can I help you today?'' ''10:00'',
        bubble ''user'' ''hi'' ''10:02'', bubble ''loading'' ''Thinking...'' ''10:02'']"
    by (simp add: clear_connection_errors_def stale_error_view_def bubble_def str_includes_def
        sublist_code)
  have b: "error_notice \<in> set (transport_errors 1006)"
    by (simp add: transport_errors_def)
  have "\<forall>n \<in> set (transport_errors 1006).
         messages (handleWebSocketMessage False ''10:01'' n (initial_panel ''10:00''))
           = without_loading (messages (initial_panel ''10:00''))
               @ [bubble ''error'' (or_text (r_message n) ''An unexpected error occurred'') ''10:01'']
         \<and> bubble ''error'' (or_text (r_message n) ''An unexpected error occurred'') ''10:01''
              \<notin> set (clear_connection_errors stale_error_view)"
    using connected_clears_transport_errors [of False "''10:00''" "initial_panel ''10:00''" 1006
        "''10:01''" "initial_panel ''10:00''" stale_error_view]
    by (elim conjE)
  with b have c: "bubble ''error'' (or_text (r_message error_notice) ''An unexpected error occurred'') ''10:01''
        \<notin> set (clear_connection_errors stale_error_view)"
    by blast
  from a b c show ?thesis by (intro conjI)
qed

text \<open>
  C1 fails on the code. When the task completes over the socket, the panel appends the whole
  history to the live list without comparing: the user's question, already shown, appears
  twice under role+content.
\<close>

theorem history_merge_duplicates:
  "show_completed ''10:02'' \<lparr>answer = Some ''4'', token_info = None, chat_history = Some history_2plus2\<rparr>
      live_view
     = [bubble ''assistant'' ''How can I help you today?'' ''10:00'', bubble ''user'' ''2+2'' ''10:01'',
        bubble ''user'' ''2+2'' ''10:02'',
        \<lparr>role = ''assistant'', content = ''4'', token_count = Some 7, timestamp = Some ''10:02''\<rparr>]
   \<and> \<not> distinct (map identity (show_completed ''10:02''
          \<lparr>answer = Some ''4'', token_info = None, chat_history = Some history_2plus2\<rparr> live_view))"
  by (simp add: show_completed_def live_view_def history_2plus2_def without_loading_def stamped_def
      bubble_def identity_def)

subsection \<open>Submitting a query\<close>

lemma strip_unchanged:
  "find (\<lambda>q. q \<noteq> [] \<and> prefix q s) seqs = None \<Longrightarrow> strip seqs s = s"
  by (subst strip.simps) simp

lemma strip_step:
  "find (\<lambda>q. q \<noteq> [] \<and> prefix q s) seqs = Some q \<Longrightarrow> strip seqs s = strip seqs (drop (length q) s)"
  by (subst strip.simps) simp

lemma trim_plain: "trim ''2+2'' = ''2+2''"
  by (simp add: trim_def js_whitespace_def strip_unchanged)

lemma trim_ideographic_space: "trim ([CHR 0xE3, CHR 0x80, CHR 0x80] @ '' '') = []"
proof -
  have a: "strip js_whitespace [CHR 0xE3, CHR 0x80, CHR 0x80, CHR '' ''] = strip js_whitespace '' ''"
    by (subst strip_step[where q = "[CHR 0xE3, CHR 0x80, CHR 0x80]"]) (simp_all add: js_whitespace_def)
  have b: "strip js_whitespace '' '' = strip js_whitespace []"
    by (subst strip_step[where q = "'' ''"]) (simp_all add: js_whitespace_def)
  have c: "strip seqs [] = []" for seqs
    by (rule strip_unchanged) (simp add: find_None_iff)
  show ?thesis by (simp add: trim_def a b c)
qed

lemma runQuery_requests_shape:
  "case start env (run_body query module) of
     Inl fm \<Rightarrow> snd (runQuery env query module) = [POST ''/run/async'' (run_body query module)]
   | Inr None \<Rightarrow> snd (runQuery env query module) = [POST ''/run/async'' (run_body query module)]
   | Inr (Some tid) \<Rightarrow>
       (\<exists>k\<le>60. (k = 0) = (tid = [])
          \<and> snd (runQuery env query module)
              = POST ''/run/async'' (run_body query module) # replicate k (GET (''/run/task/'' @ tid)))"
proof (cases "start env (run_body query module)")
  case (Inl fm)
  then show ?thesis by (simp add: runQuery_def)
next
  case (Inr b)
  show ?thesis
  proof (cases b)
    case None
    with Inr show ?thesis by (simp add: runQuery_def)
  next
    case (Some tid)
    show ?thesis
    proof (cases "tid = []")
      case True
      with Inr Some show ?thesis by (simp add: runQuery_def)
    next
      case False
      let ?p = "POST ''/run/async'' (run_body query module)"
      let ?g = "GET (''/run/task/'' @ tid)"
      from Inr Some have st: "start env (run_body query module) = Inr (Some tid)" by simp
      from runQuery_char[OF st False] obtain m where m: "m \<le> 60"
        "(m = 60 \<and> runQuery env query module
            = (Inl (Plain ''Task timed out after 60 seconds''), ?p # replicate 60 ?g))
         \<or> (m < 60 \<and> \<not> run_pending env tid m
           \<and> snd (runQuery env query module) = ?p # replicate (Suc m) ?g
           \<and> fst (runQuery env query module)
                = (case run_stop (task_poll env m tid) of
                     Inl e \<Rightarrow> Inl e
                   | Inr None \<Rightarrow> Inl (Plain null_read)
                   | Inr (Some res) \<Rightarrow> Inr (format_result res)))"
        by blast
      from m(2) have "\<exists>k\<le>60. (k = 0) = (tid = []) \<and> snd (runQuery env query module) = ?p # replicate k ?g"
      proof
        assume "m = 60 \<and> runQuery env query module
            = (Inl (Plain ''Task timed out after 60 seconds''), ?p # replicate 60 ?g)"
        then have "snd (runQuery env query module) = ?p # replicate 60 ?g" by simp
        with False show ?thesis by (intro exI[of _ 60]) simp
      next
        assume a: "m < 60 \<and> \<not> run_pending env tid m
           \<and> snd (runQuery env query module) = ?p # replicate (Suc m) ?g
           \<and> fst (runQuery env query module)
                = (case run_stop (task_poll env m tid) of
                     Inl e \<Rightarrow> Inl e
                   | Inr None \<Rightarrow> Inl (Plain null_read)
                   | Inr (Some res) \<Rightarrow> Inr (format_result res))"
        then have "Suc m \<le> 60" "snd (runQuery env query module) = ?p # replicate (Suc m) ?g" by simp_all
        with False show ?thesis by (intro exI[of _ "Suc m"]) simp
      qed
      with st show ?thesis by simp
    qed
  qed
qed

lemma rest_fallback_requests:
  "snd (rest_fallback env ts selectedModule query cl) = snd (runQuery env query (Some selectedModule))"
  by (simp add: rest_fallback_def sendRESTQuery_def split: prod.splits sum.splits)

lemma rest_fallback_wsRef:
  "wsRef (fst (rest_fallback env ts selectedModule query cl)) = wsRef cl"
  by (simp add: rest_fallback_def sendRESTQuery_def split: prod.splits sum.splits)

lemma handleSubmit_transport:
  assumes "accepted cl"
  shows "pushed cl (fst (handleSubmit env ts selectedModule cl))
           = (if channel_open cl then [query_msg (input (view cl)) selectedModule] else [])
     \<and> snd (handleSubmit env ts selectedModule cl)
           = (if channel_open cl \<and> \<not> push_fails cl then []
              else snd (runQuery env (input (view cl)) (Some selectedModule)))"
proof (cases "wsRef cl")
  case None
  with assms show ?thesis
    by (simp add: handleSubmit_def Let_def pushed_def channel_open_def push_fails_def
        rest_fallback_requests rest_fallback_wsRef)
next
  case (Some ws)
  show ?thesis
  proof (cases "readyState ws = OPEN")
    case False
    with assms Some show ?thesis
      by (simp add: handleSubmit_def Let_def pushed_def channel_open_def push_fails_def
          rest_fallback_requests rest_fallback_wsRef)
  next
    case True
    show ?thesis
    proof (cases "send_throws ws")
      case True
      with assms Some \<open>readyState ws = OPEN\<close> show ?thesis
        by (simp add: handleSubmit_def Let_def pushed_def channel_open_def push_fails_def
            sendWebSocketQuery_def ws_send_def
            rest_fallback_requests rest_fallback_wsRef)
    next
      case False
      with assms Some \<open>readyState ws = OPEN\<close> show ?thesis
        by (simp add: handleSubmit_def Let_def pushed_def channel_open_def push_fails_def
            sendWebSocketQuery_def ws_send_def)
    qed
  qed
qed

text \<open>
  C5. For every submission the panel accepts (an input that \<open>trim\<close> leaves non-empty, while
  not loading), the object \<open>{type: 'query', query, module}\<close> holding the input as typed and
  the selected module is handed to the socket if and only if the channel is open at that
  moment, and then no HTTP request is made unless the send fails. When the channel is not
  open, or the send on it fails, the same input and module are posted to \<open>/run/async\<close> as
  \<open>{query, module}\<close>, exactly once and first; every later request is a poll of the task
  whose id the server gave in answer to that very body, at most 60 of them, and none when
  the post is rejected or gives no id.
\<close>

theorem submit_uses_one_transport:
  assumes "accepted cl"
  shows "pushed cl (fst (handleSubmit env ts selectedModule cl))
           = (if channel_open cl
              then [[(''type'', JString ''query''), (''query'', JString (input (view cl))),
                     (''module'', JString selectedModule)]]
              else [])
     \<and> (if channel_open cl \<and> \<not> push_fails cl then snd (handleSubmit env ts selectedModule cl) = []
        else (case start env [(''query'', JString (input (view cl))), (''module'', JString selectedModule)] of
                Inl fm \<Rightarrow>
                  snd (handleSubmit env ts selectedModule cl)
                    = [POST ''/run/async'' [(''query'', JString (input (view cl))),
                                            (''module'', JString selectedModule)]]
              | Inr None \<Rightarrow>
                  snd (handleSubmit env ts selectedModule cl)
                    = [POST ''/run/async'' [(''query'', JString (input (view cl))),
                                            (''module'', JString selectedModule)]]
              | Inr (Some tid) \<Rightarrow>
                  (\<exists>k\<le>60. (k = 0) = (tid = [])
                     \<and> snd (handleSubmit env ts selectedModule cl)
                         = POST ''/run/async'' [(''query'', JString (input (view cl))),
                                                (''module'', JString selectedModule)]
                           # replicate k (GET (''/run/task/'' @ tid)))))"
proof -
  let ?B = "[(''query'', JString (input (view cl))), (''module'', JString selectedModule)]"
  have rb: "run_body (input (view cl)) (Some selectedModule) = ?B" by (simp add: run_body_def)
  note h = handleSubmit_transport[OF assms, of env ts selectedModule]
  have p: "pushed cl (fst (handleSubmit env ts selectedModule cl))
           = (if channel_open cl
              then [[(''type'', JString ''query''), (''query'', JString (input (view cl))),
                     (''module'', JString selectedModule)]]
              else [])"
    using h[THEN conjunct1] by (simp add: query_msg_def)
  note r = runQuery_requests_shape[of env "input (view cl)" "Some selectedModule", unfolded rb]
  show ?thesis
  proof (cases "channel_open cl \<and> \<not> push_fails cl")
    case True
    with h[THEN conjunct2] have "snd (handleSubmit env ts selectedModule cl) = []" by simp
    with p show ?thesis unfolding if_P[OF True] by (intro conjI)
  next
    case False
    with h[THEN conjunct2]
    have e: "snd (handleSubmit env ts selectedModule cl)
        = snd (runQuery env (input (view cl)) (Some selectedModule))" by simp
    from r have "case start env ?B of
                Inl fm \<Rightarrow> snd (handleSubmit env ts selectedModule cl) = [POST ''/run/async'' ?B]
              | Inr None \<Rightarrow> snd (handleSubmit env ts selectedModule cl) = [POST ''/run/async'' ?B]
              | Inr (Some tid) \<Rightarrow>
                  (\<exists>k\<le>60. (k = 0) = (tid = [])
                     \<and> snd (handleSubmit env ts selectedModule cl)
                         = POST ''/run/async'' ?B # replicate k (GET (''/run/task/'' @ tid)))"
      unfolding e .
    with p show ?thesis unfolding if_not_P[OF False] by (intro conjI)
  qed
qed

theorem submit_uses_one_transport_witness:
  "accepted (asking (Some open_socket)) \<and> accepted (asking None)
   \<and> pushed (asking (Some open_socket))
        (fst (handleSubmit answering_env ''10:01'' ''run_mini'' (asking (Some open_socket))))
        = [[(''type'', JString ''query''), (''query'', JString ''2+2''), (''module'', JString ''run_mini'')]]
   \<and> snd (handleSubmit answering_env ''10:01'' ''run_mini'' (asking (Some open_socket))) = []
   \<and> pushed (asking None) (fst (handleSubmit answering_env ''10:01'' ''run_mini'' (asking None))) = []
   \<and> snd (handleSubmit answering_env ''10:01'' ''run_mini'' (asking None))
        = [POST ''/run/async'' [(''query'', JString ''2+2''), (''module'', JString ''run_mini'')],
           GET ''/run/task/t1'', GET ''/run/task/t1'']"
proof -
  have a1: "accepted (asking (Some open_socket))"
    by (simp add: accepted_def asking_def initial_panel_def trim_plain)
  have a2: "accepted (asking None)"
    by (simp add: accepted_def asking_def initial_panel_def trim_plain)
  have o: "channel_open (asking (Some open_socket))" "\<not> push_fails (asking (Some open_socket))"
    "input (view (asking (Some open_socket))) = ''2+2''"
    by (simp_all add: channel_open_def push_fails_def asking_def open_socket_def initial_panel_def)
  have n: "\<not> channel_open (asking None)" "input (view (asking None)) = ''2+2''"
    by (simp_all add: channel_open_def asking_def initial_panel_def)
  have v: "snd (handleSubmit answering_env ''10:01'' ''run_mini'' (asking None))
        = [POST ''/run/async'' [(''query'', JString ''2+2''), (''module'', JString ''run_mini'')],
           GET ''/run/task/t1'', GET ''/run/task/t1'']"
    using a2 n
    by (simp add: handleSubmit_def Let_def asking_def rest_fallback_requests runQuery_def run_body_def
        answering_env_def eval_nat_numeral)
  from submit_uses_one_transport [OF a1, of answering_env "''10:01''" "''run_mini''"] o
  have p: "pushed (asking (Some open_socket))
        (fst (handleSubmit answering_env ''10:01'' ''run_mini'' (asking (Some open_socket))))
        = [[(''type'', JString ''query''), (''query'', JString ''2+2''), (''module'', JString ''run_mini'')]]"
    "snd (handleSubmit answering_env ''10:01'' ''run_mini'' (asking (Some open_socket))) = []"
    by simp_all
  from submit_uses_one_transport [OF a2, of answering_env "''10:01''" "''run_mini''"] n
  have q: "pushed (asking None) (fst (handleSubmit answering_env ''10:01'' ''run_mini'' (asking None))) = []"
    by simp
  from a1 a2 p q v show ?thesis by (intro conjI)
qed

subsection \<open>Keepalive\<close>

lemma client_step_connects: "connects (client_step env ts selectedModule e cl) = connects cl"
proof (cases e)
  case (Tick now)
  then show ?thesis by (simp add: ping_tick_def split: option.splits)
next
  case (Socket ev)
  then show ?thesis by (simp add: socket_event_def split: option.splits prod.splits)
next
  case (Typed t)
  then show ?thesis by simp
next
  case Submit
  have "connects (fst (rest_fallback env ts selectedModule q c)) = connects c" for q c
    by (simp add: rest_fallback_def split: prod.splits sum.splits)
  then show ?thesis using Submit
    by (simp add: handleSubmit_def Let_def split: option.splits prod.splits bool.splits)
next
  case Unmount
  then show ?thesis by (simp add: unmount_def)
qed

lemma fold_client_step_connects:
  "connects (fold (client_step env ts selectedModule) evs cl) = connects cl"
  by (induction evs arbitrary: cl) (simp_all add: client_step_connects)

lemma ping_tick_readyState:
  "map_option readyState (wsRef (ping_tick now cl)) = map_option readyState (wsRef cl)"
  by (simp add: ping_tick_def sendWebSocketPing_def ws_send_def split: option.splits)

lemma fold_ticks_readyState:
  "\<forall>e \<in> set evs. is_tick e \<Longrightarrow>
   map_option readyState (wsRef (fold (client_step env ts selectedModule) evs cl))
     = map_option readyState (wsRef cl)"
proof (induction evs arbitrary: cl)
  case Nil
  then show ?case by simp
next
  case (Cons e evs)
  then obtain now where e: "e = Tick now" by (cases e) auto
  from Cons.prems have "\<forall>e \<in> set evs. is_tick e" by simp
  from Cons.IH[OF this, of "ping_tick now cl"] e show ?case
    by (simp add: ping_tick_readyState)
qed

text \<open>
  C6 (amended). At every tick of the ping interval the panel sends one ping if the channel
  is open and nothing otherwise, so no ping goes to a channel that is not open. A pong is
  only logged: it changes nothing. The panel keeps no record of pings awaiting a pong and
  has no reconnection: whatever happens after mounting, \<open>connectWebSocket\<close> is not called
  again, and ticks alone never change the socket's \<open>readyState\<close>.
\<close>

theorem ping_only_when_open_and_no_reconnect:
  "pushed cl (ping_tick now cl) = (if pinging cl \<and> channel_open cl then [ping_msg now] else [])
   \<and> (r_type pong = ''pong'' \<longrightarrow> socket_event ts (Received (Some pong)) cl = cl)
   \<and> connects (fold (client_step env ts selectedModule) evs cl) = connects cl
   \<and> ((\<forall>e \<in> set evs. is_tick e) \<longrightarrow>
        map_option readyState (wsRef (fold (client_step env ts selectedModule) evs cl))
          = map_option readyState (wsRef cl))"
proof (intro conjI)
  show "pushed cl (ping_tick now cl) = (if pinging cl \<and> channel_open cl then [ping_msg now] else [])"
    by (simp add: pushed_def ping_tick_def channel_open_def sendWebSocketPing_def ws_send_def
        split: option.splits)
  show "r_type pong = ''pong'' \<longrightarrow> socket_event ts (Received (Some pong)) cl = cl"
    by (simp add: socket_event_def on_message_def handleWebSocketMessage_def split: option.splits)
  show "connects (fold (client_step env ts selectedModule) evs cl) = connects cl"
    by (rule fold_client_step_connects)
  show "(\<forall>e \<in> set evs. is_tick e) \<longrightarrow>
        map_option readyState (wsRef (fold (client_step env ts selectedModule) evs cl))
          = map_option readyState (wsRef cl)"
    using fold_ticks_readyState by blast
qed

theorem ping_only_when_open_and_no_reconnect_witness:
  "pinging (asking (Some open_socket)) \<and> channel_open (asking (Some open_socket))
   \<and> pushed (asking (Some open_socket)) (ping_tick 30000 (asking (Some open_socket))) = [ping_msg 30000]
   \<and> pushed (asking (Some new_socket)) (ping_tick 30000 (asking (Some new_socket))) = []
   \<and> r_type (notice ''pong'' None []) = ''pong''
   \<and> socket_event ''10:01'' (Received (Some (notice ''pong'' None []))) (asking (Some open_socket))
        = asking (Some open_socket)
   \<and> list_all is_tick [Tick 30000, Tick 60000]
   \<and> map_option readyState (wsRef (fold (client_step answering_env ''10:01'' ''run_mini'')
        [Tick 30000, Tick 60000] (asking (Some open_socket)))) = Some OPEN
   \<and> connects (fold (client_step answering_env ''10:01'' ''run_mini'')
        [Tick 30000, Tick 60000] (asking (Some open_socket))) = 1"
proof -
  note t = ping_only_when_open_and_no_reconnect [of "asking (Some open_socket)" 30000
      "notice ''pong'' None []" "''10:01''" answering_env "''run_mini''" "[Tick 30000, Tick 60000]"]
  note u = ping_only_when_open_and_no_reconnect [of "asking (Some new_socket)" 30000
      "notice ''pong'' None []" "''10:01''" answering_env "''run_mini''" "[]"]
  have a: "pinging (asking (Some open_socket))" "channel_open (asking (Some open_socket))"
    "pinging (asking (Some new_socket))" "\<not> channel_open (asking (Some new_socket))"
    "connects (asking (Some open_socket)) = 1"
    "map_option readyState (wsRef (asking (Some open_socket))) = Some OPEN"
    by (simp_all add: asking_def channel_open_def open_socket_def new_socket_def)
  have p: "r_type (notice ''pong'' None []) = ''pong''" by (simp add: notice_def)
  have k: "\<forall>e \<in> set [Tick 30000, Tick 60000]. is_tick e" by simp
  from t a have b: "pushed (asking (Some open_socket)) (ping_tick 30000 (asking (Some open_socket)))
      = [ping_msg 30000]" by simp
  from u a have c: "pushed (asking (Some new_socket)) (ping_tick 30000 (asking (Some new_socket))) = []"
    by simp
  from t p have d: "socket_event ''10:01'' (Received (Some (notice ''pong'' None [])))
      (asking (Some open_socket)) = asking (Some open_socket)" by blast
  from t k a(6) have e: "map_option readyState (wsRef (fold (client_step answering_env ''10:01'' ''run_mini'')
        [Tick 30000, Tick 60000] (asking (Some open_socket)))) = Some OPEN" by metis
  from t a(5) have f: "connects (fold (client_step answering_env ''10:01'' ''run_mini'')
        [Tick 30000, Tick 60000] (asking (Some open_socket))) = 1" by metis
  have l: "list_all is_tick [Tick 30000, Tick 60000]" by simp
  from a(1,2) b c p d l e f show ?thesis by (intro conjI)
qed

text \<open>
  C6 as stated fails: the socket opens, four pings go out over ninety seconds and no pong
  ever arrives, yet the socket is still held as open and \<open>connectWebSocket\<close> has been called
  once only, at mount.
\<close>

theorem no_pong_no_reconnect_counterexample:
  "map_option sent (wsRef silent_run)
     = Some [ping_msg 0, ping_msg 30000, ping_msg 60000, ping_msg 90000]
   \<and> map_option readyState (wsRef silent_run) = Some OPEN
   \<and> connects silent_run = 1"
  by (simp add: silent_run_def mount_def connectWebSocket_def new_socket_def fresh_client_def
      socket_event_def on_open_def ws_send_def ping_tick_def sendWebSocketPing_def
      handleWebSocketMessage_def connected_notice_def notice_def)

end
